theory Spec2Isabelle
  imports Complex_Main "HOL-Library.AList"
begin

section \<open>Python values and exceptions\<close>

text \<open>
  The collector (\<^verbatim>\<open>src/monitoringAgent.py\<close>) and the agents (\<^verbatim>\<open>src/agent_linux.py\<close>,
  \<^verbatim>\<open>src/win11agent.py\<close>) read untyped JSON. A decoded JSON document is a Python value:
  \<^verbatim>\<open>None\<close>, a boolean, a number (an \<^verbatim>\<open>int\<close> or a \<^verbatim>\<open>float\<close>, kept here as the real number it
  denotes; rounding, infinities and NaN are outside the model), a \<^verbatim>\<open>str\<close>, a \<^verbatim>\<open>list\<close> or a
  \<^verbatim>\<open>dict\<close> with \<^verbatim>\<open>str\<close> keys (an association list, the first binding of a key is the one
  the dictionary holds). A \<^verbatim>\<open>str\<close> is ASCII text.
\<close>

datatype pyval =
    PNone
  | PBool bool
  | PNum real
  | PStr string
  | PList "pyval list"
  | PDict "(string \<times> pyval) list"

datatype py_error =
    AttributeError
  | TypeError
  | ValueError
  | OSError
  | InterfaceError
  | IntegrityError

text \<open>Sequencing of statements that may raise: the first exception ends the sequence.\<close>

definition and_then :: "'e + 'a \<Rightarrow> ('a \<Rightarrow> 'e + 'b) \<Rightarrow> 'e + 'b" where
  "and_then m f = (case m of Inl e \<Rightarrow> Inl e | Inr x \<Rightarrow> f x)"

text \<open>Truth value of an object, as \<^verbatim>\<open>or\<close>, \<^verbatim>\<open>not\<close> and \<^verbatim>\<open>if\<close> test it.\<close>

fun truthy :: "pyval \<Rightarrow> bool" where
  "truthy PNone = False"
| "truthy (PBool b) = b"
| "truthy (PNum r) = (r \<noteq> 0)"
| "truthy (PStr s) = (s \<noteq> [])"
| "truthy (PList xs) = (xs \<noteq> [])"
| "truthy (PDict kvs) = (kvs \<noteq> [])"

definition py_or :: "pyval \<Rightarrow> pyval \<Rightarrow> pyval" where
  "py_or a b = (if truthy a then a else b)"

text \<open>\<^verbatim>\<open>d.get(key, default)\<close>: only a \<^verbatim>\<open>dict\<close> has the method.\<close>

fun py_get :: "pyval \<Rightarrow> string \<Rightarrow> pyval \<Rightarrow> py_error + pyval" where
  "py_get (PDict kvs) k d = Inr (case map_of kvs k of None \<Rightarrow> d | Some v \<Rightarrow> v)"
| "py_get _ k d = Inl AttributeError"


section \<open>The collector's database\<close>

text \<open>
  The three tables of \<^verbatim>\<open>init_db\<close>. Rows keep the Python values that were bound to the
  statement (SQLite's rewriting of a number stored in a TEXT column is not modelled). The
  \<^verbatim>\<open>id\<close> and \<^verbatim>\<open>ts\<close> columns, which SQLite fills in, are the position in the list and are
  left out. \<^verbatim>\<open>metric_state\<close> has PRIMARY KEY(host, kind): an association list updated in
  place. Timestamps are the formatted strings the code writes.
\<close>

type_synonym timestamp = string

record metric_state_row =
  status :: string
  last_value :: "real option"
  updated_ts :: timestamp

datatype metric_phase = High_on | Still_high_on | Back_to_normal_on

text \<open>
  The alert texts are f-strings; the model keeps the pieces that are formatted in, not the
  rendered text: \<^verbatim>\<open>"{kind.upper()} high on {host} ({host_ip}): {value:.1f}%"\<close> (and the
  \<^verbatim>\<open>still high on\<close>, \<^verbatim>\<open>back to normal on\<close> variants) is \<open>Metric_msg\<close>;
  \<^verbatim>\<open>"[{level_tag}] {status_tag} {verb} from {attacker_ip} (attacker_user) at {event_time}
  to ip {host_ip} (target_user)"\<close> is \<open>Auth_msg\<close> (the rendered clock reading is left
  out); a message taken from the payload as it is, is \<open>Raw_msg\<close>.
\<close>

datatype alert_message =
    Metric_msg metric_phase string pyval pyval real
  | Auth_msg string string string string pyval
  | Raw_msg pyval

record event_row =
  ev_host :: pyval
  ev_level :: pyval
  ev_message :: alert_message

record metrics_row =
  m_host :: pyval
  m_os :: pyval
  m_cpu :: real
  m_mem :: real
  m_disk :: real
  m_net_up :: real
  m_net_down :: real
  m_ip :: pyval

record database =
  metrics :: "metrics_row list"
  events :: "event_row list"
  metric_state :: "((pyval \<times> string) \<times> metric_state_row) list"

definition init_db :: database where
  "init_db = \<lparr>metrics = [], events = [], metric_state = []\<rparr>"

text \<open>
  The \<^verbatim>\<open>sqlite3\<close> module binds \<^verbatim>\<open>None\<close>, numbers (a \<^verbatim>\<open>bool\<close> is an \<^verbatim>\<open>int\<close>) and \<^verbatim>\<open>str\<close>;
  binding a \<^verbatim>\<open>list\<close> or a \<^verbatim>\<open>dict\<close> raises (\<^verbatim>\<open>InterfaceError\<close>; \<^verbatim>\<open>ProgrammingError\<close> in
  later versions of the module).
\<close>

fun bindable :: "pyval \<Rightarrow> bool" where
  "bindable (PList xs) = False"
| "bindable (PDict kvs) = False"
| "bindable _ = True"

fun bindable_message :: "alert_message \<Rightarrow> bool" where
  "bindable_message (Raw_msg v) = bindable v"
| "bindable_message _ = True"

text \<open>\<^verbatim>\<open>cur.execute("INSERT INTO events(host,level,message) VALUES(?,?,?)", ...)\<close>\<close>

definition insert_event :: "database \<Rightarrow> pyval \<Rightarrow> pyval \<Rightarrow> alert_message \<Rightarrow> py_error + database" where
  "insert_event db host lvl msg =
     (if bindable host \<and> bindable lvl \<and> bindable_message msg
      then Inr (db\<lparr>events := events db @ [\<lparr>ev_host = host, ev_level = lvl, ev_message = msg\<rparr>]\<rparr>)
      else Inl InterfaceError)"

text \<open>
  \<^verbatim>\<open>_get_metric_state\<close>: the row of (host, kind), or \<^verbatim>\<open>("normal", None)\<close> when there is
  none. A NULL host matches no row.
\<close>

definition get_metric_state :: "database \<Rightarrow> pyval \<Rightarrow> string \<Rightarrow> py_error + (string \<times> real option)" where
  "get_metric_state db host kind =
     (if \<not> bindable host then Inl InterfaceError
      else if host = PNone then Inr (''normal'', None)
      else (case map_of (metric_state db) (host, kind) of
              None \<Rightarrow> Inr (''normal'', None)
            | Some r \<Rightarrow> Inr (status r, last_value r)))"

text \<open>
  \<^verbatim>\<open>_set_metric_state\<close>: INSERT ... ON CONFLICT(host,kind) DO UPDATE. The clock reading
  \<^verbatim>\<open>datetime.utcnow()\<close> is the argument \<open>now\<close>. The host column is NOT NULL.
\<close>

definition set_metric_state ::
  "timestamp \<Rightarrow> database \<Rightarrow> pyval \<Rightarrow> string \<Rightarrow> string \<Rightarrow> real option \<Rightarrow> py_error + database" where
  "set_metric_state now db host kind st lv =
     (if \<not> bindable host then Inl InterfaceError
      else if host = PNone then Inl IntegrityError
      else Inr (db\<lparr>metric_state :=
                  AList.update (host, kind) \<lparr>status = st, last_value = lv, updated_ts = now\<rparr>
                    (metric_state db)\<rparr>))"


section \<open>The metric alert state machine\<close>

definition CPU_TH :: real where "CPU_TH = 80"
definition MEM_TH :: real where "MEM_TH = 80"
definition DISK_TH :: real where "DISK_TH = 80"
definition METRIC_DELTA_RESEND :: real where "METRIC_DELTA_RESEND = 5"

text \<open>\<^verbatim>\<open>handle_metric(cur, host, host_ip, kind, value, threshold)\<close>, branch by branch.\<close>

definition handle_metric ::
  "timestamp \<Rightarrow> database \<Rightarrow> pyval \<Rightarrow> pyval \<Rightarrow> string \<Rightarrow> real \<Rightarrow> real \<Rightarrow> py_error + database" where
  "handle_metric now db host host_ip kind v threshold =
     and_then (get_metric_state db host kind) (\<lambda>(prev_status, prev_value).
       let is_high = (v \<ge> threshold) in
       if is_high \<and> prev_status \<noteq> ''high'' then
         and_then (insert_event db host (PStr ''critical'') (Metric_msg High_on kind host host_ip v))
           (\<lambda>db1. set_metric_state now db1 host kind ''high'' (Some v))
       else if is_high \<and> prev_status = ''high'' then
         (if (case prev_value of None \<Rightarrow> True | Some pv \<Rightarrow> \<bar>v - pv\<bar> \<ge> METRIC_DELTA_RESEND) then
            and_then (insert_event db host (PStr ''critical'') (Metric_msg Still_high_on kind host host_ip v))
              (\<lambda>db1. set_metric_state now db1 host kind ''high'' (Some v))
          else Inr db)
       else if \<not> is_high \<and> prev_status = ''high'' then
         and_then (insert_event db host (PStr ''info'') (Metric_msg Back_to_normal_on kind host host_ip v))
           (\<lambda>db1. set_metric_state now db1 host kind ''normal'' (Some v))
       else set_metric_state now db host kind ''normal'' (Some v))"


text \<open>
  A run of evaluations of one (host, kind) pair against one threshold, each with its own
  clock reading; an exception ends the run.
\<close>

fun handle_metric_seq ::
  "database \<Rightarrow> pyval \<Rightarrow> pyval \<Rightarrow> string \<Rightarrow> real \<Rightarrow> (timestamp \<times> real) list \<Rightarrow> py_error + database" where
  "handle_metric_seq db host host_ip kind threshold [] = Inr db"
| "handle_metric_seq db host host_ip kind threshold ((now, v) # rest) =
     and_then (handle_metric now db host host_ip kind v threshold)
       (\<lambda>db'. handle_metric_seq db' host host_ip kind threshold rest)"

text \<open>
  The transition table as the specification words it, written independently of
  \<open>handle_metric\<close>: the alerts (level, wording, value) that a sequence of values must
  produce, from a status (high or not) and the stored last value.
\<close>

fun table_step ::
  "real \<Rightarrow> bool \<times> real option \<Rightarrow> real \<Rightarrow> (string \<times> metric_phase \<times> real) option \<times> (bool \<times> real option)" where
  "table_step threshold (high, base) v =
     (if v \<ge> threshold then
        (if \<not> high then (Some (''critical'', High_on, v), (True, Some v))
         else if (case base of None \<Rightarrow> False | Some b \<Rightarrow> \<bar>v - b\<bar> \<ge> METRIC_DELTA_RESEND)
              then (Some (''critical'', Still_high_on, v), (True, Some v))
              else (None, (True, base)))
      else
        (if high then (Some (''info'', Back_to_normal_on, v), (False, Some v))
         else (None, (False, Some v))))"

fun spec_alerts :: "real \<Rightarrow> bool \<times> real option \<Rightarrow> real list \<Rightarrow> (string \<times> metric_phase \<times> real) list" where
  "spec_alerts threshold st [] = []"
| "spec_alerts threshold st (v # vs) =
     (case table_step threshold st v of
        (None, st') \<Rightarrow> spec_alerts threshold st' vs
      | (Some a, st') \<Rightarrow> a # spec_alerts threshold st' vs)"

definition alert_row :: "pyval \<Rightarrow> pyval \<Rightarrow> string \<Rightarrow> string \<times> metric_phase \<times> real \<Rightarrow> event_row" where
  "alert_row host host_ip kind a =
     (case a of (lvl, ph, v) \<Rightarrow>
        \<lparr>ev_host = host, ev_level = PStr lvl, ev_message = Metric_msg ph kind host host_ip v\<rparr>)"

definition stored :: "database \<Rightarrow> pyval \<Rightarrow> string \<Rightarrow> bool \<times> real option" where
  "stored db host kind =
     (case map_of (metric_state db) (host, kind) of
        None \<Rightarrow> (False, None)
      | Some r \<Rightarrow> (status r = ''high'', last_value r))"

text \<open>
  Every row that \<open>handle_metric\<close> writes has a last value; so has every high row of a
  database that only \<open>handle_metric\<close> wrote to.
\<close>

definition row_ok :: "database \<Rightarrow> pyval \<Rightarrow> string \<Rightarrow> bool" where
  "row_ok db host kind = (fst (stored db host kind) \<longrightarrow> snd (stored db host kind) \<noteq> None)"


section \<open>Text\<close>

text \<open>
  \<^verbatim>\<open>str.lower\<close>, \<^verbatim>\<open>str.upper\<close>, \<^verbatim>\<open>str.strip\<close> and the \<^verbatim>\<open>in\<close> test on ASCII text. White
  space is what \<^verbatim>\<open>str.isspace\<close> and the pattern \<^verbatim>\<open>\s\<close> accept: tab, line feed, vertical
  tab, form feed, carriage return, the separators 0x1C to 0x1F and the blank.
\<close>

definition is_space :: "char \<Rightarrow> bool" where
  "is_space c = (let n = (of_char c :: nat) in (9 \<le> n \<and> n \<le> 13) \<or> (28 \<le> n \<and> n \<le> 32))"

definition is_digit :: "char \<Rightarrow> bool" where
  "is_digit c = (let n = (of_char c :: nat) in 48 \<le> n \<and> n \<le> 57)"

definition lower_char :: "char \<Rightarrow> char" where
  "lower_char c =
     (case map_of (zip ''ABCDEFGHIJKLMNOPQRSTUVWXYZ'' ''abcdefghijklmnopqrstuvwxyz'') c of
        None \<Rightarrow> c | Some d \<Rightarrow> d)"

definition upper_char :: "char \<Rightarrow> char" where
  "upper_char c =
     (case map_of (zip ''abcdefghijklmnopqrstuvwxyz'' ''ABCDEFGHIJKLMNOPQRSTUVWXYZ'') c of
        None \<Rightarrow> c | Some d \<Rightarrow> d)"

definition lower :: "string \<Rightarrow> string" where
  "lower s = map lower_char s"

definition upper :: "string \<Rightarrow> string" where
  "upper s = map upper_char s"

definition strip :: "string \<Rightarrow> string" where
  "strip s = rev (dropWhile is_space (rev (dropWhile is_space s)))"

fun starts_with :: "string \<Rightarrow> string \<Rightarrow> bool" where
  "starts_with [] s = True"
| "starts_with (p # ps) [] = False"
| "starts_with (p # ps) (c # cs) = (p = c \<and> starts_with ps cs)"

text \<open>\<open>contains sub s\<close> is \<^verbatim>\<open>sub in s\<close>.\<close>

fun contains :: "string \<Rightarrow> string \<Rightarrow> bool" where
  "contains sub [] = (sub = [])"
| "contains sub (c # cs) = (starts_with sub (c # cs) \<or> contains sub cs)"


section \<open>The ingest endpoint\<close>

definition API_KEY :: string where
  "API_KEY = ''CHANGE_ME_SUPER_SECRET''"

definition LOCAL_TI :: "(string \<times> string) list" where
  "LOCAL_TI = [(''10.10.1.5'', ''kali''), (''10.10.1.6'', ''win11''), (''10.10.1.10'', ''server'')]"

text \<open>
  \<^verbatim>\<open>_f(x)\<close>: \<^verbatim>\<open>float(x)\<close>, and 0.0 when that raises. What \<^verbatim>\<open>float\<close> makes of a \<^verbatim>\<open>str\<close> is
  the parameter \<open>float_of_str\<close> (\<open>None\<close> where it raises). A number is taken to be
  in the range of a \<^verbatim>\<open>float\<close>.
\<close>

fun f_float :: "(string \<Rightarrow> real option) \<Rightarrow> pyval \<Rightarrow> real" where
  "f_float float_of_str (PNum r) = r"
| "f_float float_of_str (PBool b) = (if b then 1 else 0)"
| "f_float float_of_str (PStr s) = (case float_of_str s of None \<Rightarrow> 0 | Some r \<Rightarrow> r)"
| "f_float float_of_str _ = 0"

text \<open>Method calls on a value that may not be a \<^verbatim>\<open>str\<close>.\<close>

fun py_lower :: "pyval \<Rightarrow> py_error + string" where
  "py_lower (PStr s) = Inr (lower s)"
| "py_lower _ = Inl AttributeError"

fun py_strip :: "pyval \<Rightarrow> py_error + string" where
  "py_strip (PStr s) = Inr (strip s)"
| "py_strip _ = Inl AttributeError"

text \<open>
  What a \<^verbatim>\<open>for\<close> loop iterates over: the items of a list, the keys of a dict, the
  characters of a str; anything else is not iterable.
\<close>

fun py_iter :: "pyval \<Rightarrow> py_error + pyval list" where
  "py_iter (PList xs) = Inr xs"
| "py_iter (PDict kvs) = Inr (map (\<lambda>kv. PStr (fst kv)) kvs)"
| "py_iter (PStr s) = Inr (map (\<lambda>c. PStr [c]) s)"
| "py_iter _ = Inl TypeError"

text \<open>Lookup in the payload, which is a dict where these are used.\<close>

definition dict_get :: "(string \<times> pyval) list \<Rightarrow> string \<Rightarrow> pyval \<Rightarrow> pyval" where
  "dict_get kvs k d = (case map_of kvs k of None \<Rightarrow> d | Some v \<Rightarrow> v)"

text \<open>The canonical submission both payload shapes are read into.\<close>

record submission =
  sub_host :: pyval
  sub_os :: pyval
  sub_ip :: pyval
  sub_cpu :: real
  sub_mem :: real
  sub_disk :: real
  sub_net_up :: real
  sub_net_down :: real

definition remote_value :: "string option \<Rightarrow> pyval" where
  "remote_value remote_addr = (case remote_addr of None \<Rightarrow> PNone | Some a \<Rightarrow> PStr a)"

text \<open>
  The nested shape, lines 176 to 190: \<^verbatim>\<open>meta\<close>, \<^verbatim>\<open>resources\<close>, \<^verbatim>\<open>network\<close> and
  \<^verbatim>\<open>network["total"]\<close> are used as dicts whatever they are.
\<close>

definition extract_meta ::
  "(string \<Rightarrow> real option) \<Rightarrow> string option \<Rightarrow> (string \<times> pyval) list \<Rightarrow> py_error + submission" where
  "extract_meta float_of_str remote_addr payload =
     (let meta = py_or (dict_get payload ''meta'' (PDict [])) (PDict []);
          resources = py_or (dict_get payload ''resources'' (PDict [])) (PDict []);
          network = py_or (dict_get payload ''network'' (PDict [])) (PDict [])
      in
      and_then (py_get meta ''hostname'' PNone) (\<lambda>hostname.
      and_then (py_get meta ''os'' PNone) (\<lambda>os.
      and_then (py_get meta ''ip'' PNone) (\<lambda>ip.
      and_then (py_get resources ''cpu_percent'' (PNum 0)) (\<lambda>cpu.
      and_then (py_get resources ''ram_percent'' (PNum 0)) (\<lambda>mem.
      and_then (py_get resources ''disk_percent'' (PNum 0)) (\<lambda>disk.
      and_then (py_get network ''total'' (PDict [])) (\<lambda>t.
      let total = py_or t (PDict []) in
      and_then (py_get total ''bytes_sent'' (PNum 0)) (\<lambda>sent.
      and_then (py_get total ''bytes_recv'' (PNum 0)) (\<lambda>recv.
      Inr \<lparr>sub_host = py_or hostname (dict_get payload ''host'' (PStr ''unknown'')),
           sub_os = py_or os (dict_get payload ''os'' (PStr ''unknown'')),
           sub_ip = py_or ip (py_or (dict_get payload ''src_ip'' PNone)
                      (py_or (remote_value remote_addr) (PStr ''unknown''))),
           sub_cpu = f_float float_of_str cpu,
           sub_mem = f_float float_of_str mem,
           sub_disk = f_float float_of_str disk,
           sub_net_up = f_float float_of_str sent,
           sub_net_down = f_float float_of_str recv\<rparr>))))))))))"

text \<open>The flat shape, lines 243 to 253 (the event fields are read by \<open>ingest_flat\<close>).\<close>

definition extract_flat ::
  "(string \<Rightarrow> real option) \<Rightarrow> string option \<Rightarrow> (string \<times> pyval) list \<Rightarrow> submission" where
  "extract_flat float_of_str remote_addr payload =
     \<lparr>sub_host = dict_get payload ''host'' (PStr ''unknown''),
      sub_os = dict_get payload ''os'' (PStr ''unknown''),
      sub_ip = py_or (dict_get payload ''src_ip'' PNone)
                 (py_or (remote_value remote_addr) (PStr ''unknown'')),
      sub_cpu = f_float float_of_str (dict_get payload ''cpu'' (PNum 0)),
      sub_mem = f_float float_of_str (dict_get payload ''mem'' (PNum 0)),
      sub_disk = f_float float_of_str (dict_get payload ''disk'' (PNum 0)),
      sub_net_up = f_float float_of_str (dict_get payload ''net_up'' (PNum 0)),
      sub_net_down = f_float float_of_str (dict_get payload ''net_down'' (PNum 0))\<rparr>"

text \<open>
  \<^verbatim>\<open>INSERT INTO metrics(host,os,cpu,mem,disk,net_up,net_down,ip)\<close>: the parameters are
  bound first; \<^verbatim>\<open>host\<close> and \<^verbatim>\<open>os\<close> are NOT NULL.
\<close>

definition store_snapshot :: "database \<Rightarrow> submission \<Rightarrow> py_error + database" where
  "store_snapshot db sub =
     (if \<not> (bindable (sub_host sub) \<and> bindable (sub_os sub) \<and> bindable (sub_ip sub))
      then Inl InterfaceError
      else if sub_host sub = PNone \<or> sub_os sub = PNone then Inl IntegrityError
      else Inr (db\<lparr>metrics := metrics db @
                  [\<lparr>m_host = sub_host sub, m_os = sub_os sub, m_cpu = sub_cpu sub,
                    m_mem = sub_mem sub, m_disk = sub_disk sub, m_net_up = sub_net_up sub,
                    m_net_down = sub_net_down sub, m_ip = sub_ip sub\<rparr>]\<rparr>))"

text \<open>
  The three calls of \<open>handle_metric\<close>, for cpu, mem and disk in this order;
  \<open>now_of kind\<close> is the clock reading while that kind is evaluated.
\<close>

definition evaluate_metrics :: "(string \<Rightarrow> timestamp) \<Rightarrow> database \<Rightarrow> submission \<Rightarrow> py_error + database" where
  "evaluate_metrics now_of db sub =
     and_then (handle_metric (now_of ''cpu'') db (sub_host sub) (sub_ip sub) ''cpu'' (sub_cpu sub) CPU_TH) (\<lambda>db1.
     and_then (handle_metric (now_of ''mem'') db1 (sub_host sub) (sub_ip sub) ''mem'' (sub_mem sub) MEM_TH) (\<lambda>db2.
     handle_metric (now_of ''disk'') db2 (sub_host sub) (sub_ip sub) ''disk'' (sub_disk sub) DISK_TH))"

text \<open>
  The body of the loop over \<^verbatim>\<open>auth_events\<close>, lines 208 to 235: the level and the message
  of one item; \<open>None\<close> is the \<^verbatim>\<open>continue\<close> of an item without a type.
\<close>

definition auth_event_alert :: "pyval \<Rightarrow> pyval \<Rightarrow> py_error + (string \<times> alert_message) option" where
  "auth_event_alert host_ip evt =
     and_then (py_get evt ''type'' PNone) (\<lambda>t.
     and_then (py_lower (py_or t (PStr []))) (\<lambda>lowered.
     let etype = strip lowered in
     if etype = [] then Inr None
     else
       and_then (py_get evt ''src_ip'' PNone) (\<lambda>ip.
       and_then (py_strip (py_or ip (PStr ''unknown''))) (\<lambda>attacker_ip.
       let status_tag = (if map_of LOCAL_TI attacker_ip \<noteq> None then ''(Local)'' else ''(TI)'');
           (level, verb) =
             (if etype = ''successful_login'' then (''critical'', ''Successful SSH login'')
              else if etype = ''failed_login'' then (''warning'', ''Failed SSH login'')
              else if etype = ''logout'' then (''warning'', ''SSH logout'')
              else (''info'', ''Auth event ('' @ etype @ '')''))
       in Inr (Some (level, Auth_msg (upper level) status_tag verb attacker_ip host_ip))))))"

fun auth_events_loop :: "database \<Rightarrow> pyval \<Rightarrow> pyval \<Rightarrow> pyval list \<Rightarrow> py_error + database" where
  "auth_events_loop db host host_ip [] = Inr db"
| "auth_events_loop db host host_ip (evt # rest) =
     and_then (auth_event_alert host_ip evt) (\<lambda>a.
       case a of
         None \<Rightarrow> auth_events_loop db host host_ip rest
       | Some (level, msg) \<Rightarrow>
           and_then (insert_event db host (PStr level) msg) (\<lambda>db'.
             auth_events_loop db' host host_ip rest))"

text \<open>
  The nested branch, lines 176 to 240. The value is the database that \<^verbatim>\<open>con.commit()\<close>
  makes durable, or the exception that left the function before the commit.
\<close>

definition ingest_meta ::
  "(string \<Rightarrow> real option) \<Rightarrow> (string \<Rightarrow> timestamp) \<Rightarrow> string option \<Rightarrow> (string \<times> pyval) list
     \<Rightarrow> database \<Rightarrow> py_error + database" where
  "ingest_meta float_of_str now_of remote_addr payload db =
     and_then (extract_meta float_of_str remote_addr payload) (\<lambda>sub.
     and_then (store_snapshot db sub) (\<lambda>db1.
     and_then (evaluate_metrics now_of db1 sub) (\<lambda>db2.
     and_then (py_iter (py_or (dict_get payload ''auth_events'' (PList [])) (PList []))) (\<lambda>auth_events.
     auth_events_loop db2 (sub_host sub) (sub_ip sub) auth_events))))"

text \<open>The flat branch, lines 243 to 270.\<close>

definition ingest_flat ::
  "(string \<Rightarrow> real option) \<Rightarrow> (string \<Rightarrow> timestamp) \<Rightarrow> string option \<Rightarrow> (string \<times> pyval) list
     \<Rightarrow> database \<Rightarrow> py_error + database" where
  "ingest_flat float_of_str now_of remote_addr payload db =
     (let sub = extract_flat float_of_str remote_addr payload;
          evt_msg = dict_get payload ''event_msg'' PNone;
          evt_lvl = dict_get payload ''event_level'' (PStr ''info'')
      in
      and_then (store_snapshot db sub) (\<lambda>db1.
      and_then (evaluate_metrics now_of db1 sub) (\<lambda>db2.
      if truthy evt_msg then insert_event db2 (sub_host sub) evt_lvl (Raw_msg evt_msg)
      else Inr db2)))"

datatype response = Unauthorized | Ok_meta | Ok_flat | Server_error py_error

text \<open>
  An exception leaves the connection without \<^verbatim>\<open>commit\<close>: what the statements of the
  request wrote is rolled back, and the stored database is the one the request found.
\<close>

definition commit :: "response \<Rightarrow> database \<Rightarrow> py_error + database \<Rightarrow> response \<times> database" where
  "commit ok db r = (case r of Inl e \<Rightarrow> (Server_error e, db) | Inr db' \<Rightarrow> (ok, db'))"

text \<open>
  \<^verbatim>\<open>ingest()\<close>: \<open>api_key\<close> is the \<^verbatim>\<open>X-API-Key\<close> header (\<open>None\<close> when absent), \<open>body\<close> the
  decoded JSON body (\<open>PNone\<close> when there is none that parses), \<open>remote_addr\<close> the
  peer's address. The result is the response and the stored database after the request.
  A body that is not a dict fails on \<^verbatim>\<open>"meta" in payload\<close> (a number, a boolean) or on
  \<^verbatim>\<open>payload.get\<close> (a str, a list).
\<close>

definition ingest ::
  "(string \<Rightarrow> real option) \<Rightarrow> (string \<Rightarrow> timestamp) \<Rightarrow> string option \<Rightarrow> string option \<Rightarrow> pyval
     \<Rightarrow> database \<Rightarrow> response \<times> database" where
  "ingest float_of_str now_of remote_addr api_key body db =
     (if api_key \<noteq> Some API_KEY then (Unauthorized, db)
      else
        (case py_or body (PDict []) of
           PDict payload \<Rightarrow>
             if map_of payload ''meta'' \<noteq> None \<or> map_of payload ''resources'' \<noteq> None
             then commit Ok_meta db (ingest_meta float_of_str now_of remote_addr payload db)
             else commit Ok_flat db (ingest_flat float_of_str now_of remote_addr payload db)
         | PStr s \<Rightarrow> (Server_error AttributeError, db)
         | PList xs \<Rightarrow> (Server_error AttributeError, db)
         | _ \<Rightarrow> (Server_error TypeError, db)))"


text \<open>
  The event rows a list of items gives when none of them raises: one row for each item
  that has a type, in order.
\<close>

definition auth_rows :: "pyval \<Rightarrow> pyval \<Rightarrow> pyval list \<Rightarrow> event_row list" where
  "auth_rows host host_ip evs =
     concat (map (\<lambda>e. case auth_event_alert host_ip e of
                         Inr (Some (level, msg)) \<Rightarrow>
                           [\<lparr>ev_host = host, ev_level = PStr level, ev_message = msg\<rparr>]
                       | _ \<Rightarrow> []) evs)"

text \<open>
  A submission used in examples: a busy CPU and three auth events, the second of which
  is left open. With it, a \<^verbatim>\<open>float\<close> that takes no text, a clock that stands still, the
  submission as read, and the database after the snapshot and the three metric
  evaluations on an empty database.
\<close>

definition example_float :: "string \<Rightarrow> real option" where
  "example_float s = None"

definition example_clock :: "string \<Rightarrow> timestamp" where
  "example_clock kind = ''2024-05-01 10:00:00''"

definition example_payload :: "pyval \<Rightarrow> (string \<times> pyval) list" where
  "example_payload second_event =
     [(''meta'', PDict [(''hostname'', PStr ''web01''), (''os'', PStr ''Linux''),
                        (''ip'', PStr ''10.10.1.5'')]),
      (''resources'', PDict [(''cpu_percent'', PNum 95), (''ram_percent'', PNum 40),
                             (''disk_percent'', PNum 50)]),
      (''auth_events'', PList
         [PDict [(''type'', PStr ''failed_login''), (''src_ip'', PStr ''203.0.113.9'')],
          second_event,
          PDict [(''type'', PStr ''logout''), (''src_ip'', PStr ''10.10.1.6'')]])]"

definition example_sub :: submission where
  "example_sub =
     \<lparr>sub_host = PStr ''web01'', sub_os = PStr ''Linux'', sub_ip = PStr ''10.10.1.5'',
      sub_cpu = 95, sub_mem = 40, sub_disk = 50, sub_net_up = 0, sub_net_down = 0\<rparr>"

definition example_db1 :: database where
  "example_db1 =
     \<lparr>metrics = [\<lparr>m_host = PStr ''web01'', m_os = PStr ''Linux'', m_cpu = 95, m_mem = 40,
                   m_disk = 50, m_net_up = 0, m_net_down = 0, m_ip = PStr ''10.10.1.5''\<rparr>],
      events = [], metric_state = []\<rparr>"

definition example_db2 :: database where
  "example_db2 =
     \<lparr>metrics = [\<lparr>m_host = PStr ''web01'', m_os = PStr ''Linux'', m_cpu = 95, m_mem = 40,
                   m_disk = 50, m_net_up = 0, m_net_down = 0, m_ip = PStr ''10.10.1.5''\<rparr>],
      events = [\<lparr>ev_host = PStr ''web01'', ev_level = PStr ''critical'',
                  ev_message = Metric_msg High_on ''cpu'' (PStr ''web01'') (PStr ''10.10.1.5'') 95\<rparr>],
      metric_state =
        [((PStr ''web01'', ''cpu''),
          \<lparr>status = ''high'', last_value = Some 95, updated_ts = ''2024-05-01 10:00:00''\<rparr>),
         ((PStr ''web01'', ''mem''),
          \<lparr>status = ''normal'', last_value = Some 40, updated_ts = ''2024-05-01 10:00:00''\<rparr>),
         ((PStr ''web01'', ''disk''),
          \<lparr>status = ''normal'', last_value = Some 50, updated_ts = ''2024-05-01 10:00:00''\<rparr>)]\<rparr>"


section \<open>Patterns\<close>

text \<open>
  \<^verbatim>\<open>re.search\<close> tries a pattern at every position from the left and returns the first
  match; \<open>m\<close> is the pattern anchored at the start of the text it is given.
\<close>

fun re_search :: "(string \<Rightarrow> 'a option) \<Rightarrow> string \<Rightarrow> 'a option" where
  "re_search m [] = m []"
| "re_search m (c # cs) = (case m (c # cs) of Some r \<Rightarrow> Some r | None \<Rightarrow> re_search m cs)"

text \<open>
  \<^verbatim>\<open>\d{1,3}\.\<close>: one to three digits and a dot. The dot is no digit, so the digits are
  the whole run of digits at the start. The result is the text matched and the rest.
\<close>

definition digits_dot :: "string \<Rightarrow> (string \<times> string) option" where
  "digits_dot s =
     (let ds = takeWhile is_digit s; rest = dropWhile is_digit s
      in if ds \<noteq> [] \<and> length ds \<le> 3 \<and> starts_with ''.'' rest
         then Some (ds @ ''.'', drop 1 rest) else None)"

text \<open>
  \<^verbatim>\<open>IP_RE = (\d{1,3}\.){3}\d{1,3}\<close> at the start of the text: three such groups, then as
  many digits as there are, up to three, and at least one.
\<close>

definition ip_at :: "string \<Rightarrow> string option" where
  "ip_at s =
     (case digits_dot s of None \<Rightarrow> None | Some (a, r1) \<Rightarrow>
      case digits_dot r1 of None \<Rightarrow> None | Some (b, r2) \<Rightarrow>
      case digits_dot r2 of None \<Rightarrow> None | Some (c, r3) \<Rightarrow>
        let d = take 3 (takeWhile is_digit r3)
        in if d = [] then None else Some (a @ b @ c @ d))"

definition extract_ip :: "string \<Rightarrow> string option" where
  "extract_ip line = re_search ip_at line"

text \<open>
  A literal followed by \<^verbatim>\<open>(\S+)\<close>: the group is the whole run of characters up to the
  next white space, and must not be empty. The result is the group and the rest.
\<close>

definition word_after :: "string \<Rightarrow> string \<Rightarrow> (string \<times> string) option" where
  "word_after lit s =
     (if starts_with lit s then
        (let r = drop (length lit) s; w = takeWhile (\<lambda>c. \<not> is_space c) r
         in if w = [] then None else Some (w, dropWhile (\<lambda>c. \<not> is_space c) r))
      else None)"

text \<open>\<^verbatim>\<open>lit(\S+)\<close>\<close>

definition user_plain :: "string \<Rightarrow> string \<Rightarrow> string option" where
  "user_plain lit s = map_option fst (word_after lit s)"

text \<open>\<^verbatim>\<open>lit(\S+)\s+from\<close>\<close>

definition user_from :: "string \<Rightarrow> string \<Rightarrow> string option" where
  "user_from lit s =
     (case word_after lit s of
        None \<Rightarrow> None
      | Some (w, r) \<Rightarrow>
          if r \<noteq> [] \<and> starts_with ''from'' (dropWhile is_space r) then Some w else None)"

definition username_patterns :: "(string \<Rightarrow> string option) list" where
  "username_patterns =
     [user_plain ''Failed password for invalid user '',
      user_from ''Failed password for '',
      user_from ''Accepted password for '',
      user_plain ''session opened for user '',
      user_plain ''session closed for user '',
      user_plain ''for user '']"

fun first_match :: "(string \<Rightarrow> string option) list \<Rightarrow> string \<Rightarrow> string option" where
  "first_match [] line = None"
| "first_match (pat # pats) line =
     (case re_search pat line of Some u \<Rightarrow> Some u | None \<Rightarrow> first_match pats line)"

definition extract_username :: "string \<Rightarrow> string option" where
  "extract_username line = first_match username_patterns line"

text \<open>\<^verbatim>\<open>\w\<close>: a letter, a digit or the underscore.\<close>

definition is_word :: "char \<Rightarrow> bool" where
  "is_word c = (c \<in> set ''abcdefghijklmnopqrstuvwxyzABCDEFGHIJKLMNOPQRSTUVWXYZ0123456789_'')"

text \<open>
  \<^verbatim>\<open>session\s+(\d+)\b\<close> at the start of the text: the digits are the whole run, and what
  follows them is not a word character.
\<close>

definition session_at :: "string \<Rightarrow> string option" where
  "session_at s =
     (if starts_with ''session'' s then
        (let r = drop 7 s; r' = dropWhile is_space r;
             ds = takeWhile is_digit r'; after = dropWhile is_digit r'
         in if r \<noteq> r' \<and> ds \<noteq> [] \<and> (case after of [] \<Rightarrow> True | c # cs \<Rightarrow> \<not> is_word c)
            then Some ds else None)
      else None)"

text \<open>
  \<^verbatim>\<open>re.search(r"\bsession\s+(\d+)\b", lower)\<close>: the leading \<^verbatim>\<open>\b\<close> asks that the character
  before the match, if there is one, is not a word character.
\<close>

fun session_search :: "bool \<Rightarrow> string \<Rightarrow> string option" where
  "session_search after_word [] = None"
| "session_search after_word (c # cs) =
     (case (if after_word then None else session_at (c # cs)) of
        Some d \<Rightarrow> Some d
      | None \<Rightarrow> session_search (is_word c) cs)"

definition session_id :: "string \<Rightarrow> string option" where
  "session_id line = session_search False (lower line)"


section \<open>Lines of a text\<close>

text \<open>\<^verbatim>\<open>str.splitlines\<close>: the line boundaries of ASCII text; CR LF is one boundary.\<close>

definition is_linebreak :: "char \<Rightarrow> bool" where
  "is_linebreak c = (let n = (of_char c :: nat) in (10 \<le> n \<and> n \<le> 13) \<or> (28 \<le> n \<and> n \<le> 30))"

fun splitlines_from :: "string \<Rightarrow> string \<Rightarrow> string list" where
  "splitlines_from cur [] = (if cur = [] then [] else [rev cur])"
| "splitlines_from cur (c # cs) =
     (if is_linebreak c then
        (case cs of
           d # ds \<Rightarrow> if c = CHR 0x0D \<and> d = CHR 0x0A then rev cur # splitlines_from [] ds
                     else rev cur # splitlines_from [] cs
         | [] \<Rightarrow> [rev cur])
      else splitlines_from (c # cur) cs)"

definition splitlines :: "string \<Rightarrow> string list" where
  "splitlines s = splitlines_from [] s"


section \<open>The Linux agent: events of one collection window\<close>

record auth_event =
  a_type :: string
  a_username :: "string option"
  a_src_ip :: "string option"
  a_raw :: string

text \<open>
  The state of \<^verbatim>\<open>parse_journalctl_events\<close>: the list \<^verbatim>\<open>events\<close>, the sets \<^verbatim>\<open>seen_raw\<close>
  and \<^verbatim>\<open>seen_sessions\<close>, the flag \<^verbatim>\<open>saw_sshd_logout\<close>, and the two globals
  \<^verbatim>\<open>LAST_AUTH_USERNAME\<close> and \<^verbatim>\<open>LAST_AUTH_IP\<close>, which outlive the call.
\<close>

record window_state =
  w_events :: "auth_event list"
  seen_raw :: "string set"
  seen_sessions :: "string set"
  saw_sshd_logout :: bool
  last_auth_username :: "string option"
  last_auth_ip :: "string option"

text \<open>The truth value of an optional text: \<^verbatim>\<open>None\<close> and the empty text are false.\<close>

definition filled :: "string option \<Rightarrow> bool" where
  "filled x = (case x of None \<Rightarrow> False | Some s \<Rightarrow> s \<noteq> [])"

text \<open>Lines 140 to 154: the kind of an sshd line, by the first marker group it contains.\<close>

definition ssh_event_type :: "string \<Rightarrow> string option" where
  "ssh_event_type line =
     (let lower = lower line in
      if contains ''failed password'' lower \<or> contains ''invalid user'' lower
        then Some ''failed_login''
      else if contains ''accepted password'' lower \<or> contains ''accepted publickey'' lower
        then Some ''successful_login''
      else if contains ''session closed for user'' lower \<or> contains ''disconnected from'' lower
           \<or> contains ''received disconnect'' lower \<or> contains ''session closed'' lower
        then Some ''logout''
      else None)"

text \<open>The body of the loop over the sshd lines, lines 136 to 177.\<close>

definition ssh_line :: "window_state \<Rightarrow> string \<Rightarrow> window_state" where
  "ssh_line st line =
     (if line \<in> seen_raw st then st
      else
        let st1 = st\<lparr>seen_raw := insert line (seen_raw st)\<rparr> in
        case ssh_event_type line of
          None \<Rightarrow> st1
        | Some ev_type \<Rightarrow>
            let username = extract_username line;
                src_ip = extract_ip line;
                st2 = (if ev_type = ''successful_login'' \<or> ev_type = ''failed_login''
                       then st1\<lparr>last_auth_username :=
                                   (if filled username then username else last_auth_username st1),
                                 last_auth_ip :=
                                   (if filled src_ip then src_ip else last_auth_ip st1)\<rparr>
                       else st1);
                st3 = (if ev_type = ''logout'' then st2\<lparr>saw_sshd_logout := True\<rparr> else st2);
                username' = (if ev_type = ''logout'' \<and> \<not> filled username \<and> filled (last_auth_username st3)
                             then last_auth_username st3 else username);
                src_ip' = (if ev_type = ''logout'' \<and> \<not> filled src_ip \<and> filled (last_auth_ip st3)
                           then last_auth_ip st3 else src_ip)
            in st3\<lparr>w_events := w_events st3 @
                     [\<lparr>a_type = ev_type, a_username = username', a_src_ip = src_ip', a_raw = line\<rparr>]\<rparr>)"

text \<open>Lines 194 to 208: the shape of a logind logout line.\<close>

definition logind_logout_line :: "string \<Rightarrow> bool" where
  "logind_logout_line line =
     (let lower = lower line in
      contains ''session'' lower
      \<and> (contains ''logged out'' lower \<or> contains ''removed'' lower \<or> contains ''closed'' lower))"

text \<open>The body of the loop over the logind lines, lines 189 to 208.\<close>

definition logind_line :: "window_state \<Rightarrow> string \<Rightarrow> window_state" where
  "logind_line st line =
     (if line \<in> seen_raw st then st
      else
        let st1 = st\<lparr>seen_raw := insert line (seen_raw st)\<rparr> in
        if logind_logout_line line then
          (let sess_id = session_id line in
           if (case sess_id of None \<Rightarrow> False | Some sid \<Rightarrow> sid \<noteq> [] \<and> sid \<in> seen_sessions st1)
           then st1
           else
             let st2 = (case sess_id of
                          None \<Rightarrow> st1
                        | Some sid \<Rightarrow>
                            if sid \<noteq> [] then st1\<lparr>seen_sessions := insert sid (seen_sessions st1)\<rparr>
                            else st1)
             in st2\<lparr>w_events := w_events st2 @
                      [\<lparr>a_type = ''logout'', a_username = last_auth_username st2,
                        a_src_ip = last_auth_ip st2, a_raw = line\<rparr>]\<rparr>)
        else st1)"

text \<open>
  One \<^verbatim>\<open>journalctl\<close> call: its decoded output, or \<open>None\<close> when the call raised, in which
  case it contributes no line. The lines kept are those that are not blank.
\<close>

definition journal_lines :: "string option \<Rightarrow> string list" where
  "journal_lines out =
     (case out of
        None \<Rightarrow> []
      | Some text \<Rightarrow> filter (\<lambda>l. strip l \<noteq> []) (splitlines (strip text)))"

text \<open>The state before the first line, from the two globals.\<close>

definition start_window :: "string option \<Rightarrow> string option \<Rightarrow> window_state" where
  "start_window last_username last_ip =
     \<lparr>w_events = [], seen_raw = {}, seen_sessions = {}, saw_sshd_logout = False,
      last_auth_username = last_username, last_auth_ip = last_ip\<rparr>"

text \<open>The pass over the lines of the units \<^verbatim>\<open>ssh\<close> and \<^verbatim>\<open>sshd\<close>.\<close>

definition ssh_pass :: "string option \<Rightarrow> string option \<Rightarrow> string list \<Rightarrow> window_state" where
  "ssh_pass last_username last_ip ssh_lines =
     foldl ssh_line (start_window last_username last_ip) ssh_lines"

text \<open>
  \<^verbatim>\<open>parse_journalctl_events\<close>, from the outputs of the three \<^verbatim>\<open>journalctl\<close> calls and the
  two globals. The result is the state at the \<^verbatim>\<open>return\<close>: \<open>w_events\<close> is the list
  returned, \<open>last_auth_username\<close> and \<open>last_auth_ip\<close> are the globals after the call.
\<close>

definition parse_journalctl_events ::
  "string option \<Rightarrow> string option \<Rightarrow> string option \<Rightarrow> string option \<Rightarrow> string option \<Rightarrow> window_state" where
  "parse_journalctl_events last_username last_ip ssh_out sshd_out logind_out =
     (let ssh_lines = journal_lines ssh_out @ journal_lines sshd_out;
          logind_lines = journal_lines logind_out;
          st = ssh_pass last_username last_ip ssh_lines
      in if \<not> saw_sshd_logout st then foldl logind_line st logind_lines else st)"


section \<open>The correlation rules as the specification words them\<close>

text \<open>
  Whole-line dedup: the lines of a list that were not seen before, each at its first
  occurrence.
\<close>

fun first_seen :: "'a set \<Rightarrow> 'a list \<Rightarrow> 'a list" where
  "first_seen seen [] = []"
| "first_seen seen (x # xs) =
     (if x \<in> seen then first_seen seen xs else x # first_seen (insert x seen) xs)"

text \<open>
  The classifier of one line: nothing, or the kind with the username and the source IP
  that the two extractions find, each of which may be absent.
\<close>

record classified =
  c_kind :: string
  c_user :: "string option"
  c_ip :: "string option"
  c_raw :: string

definition classify :: "string \<Rightarrow> classified option" where
  "classify line =
     (case ssh_event_type line of
        None \<Rightarrow> None
      | Some k \<Rightarrow> Some \<lparr>c_kind = k, c_user = extract_username line, c_ip = extract_ip line,
                         c_raw = line\<rparr>)"

text \<open>
  The identity memory rules over the classified records of a window, from the memory
  (last username, last source IP): a login record, successful or failed, overwrites each
  part of the memory that it carries and is emitted as it is; a logout record is emitted
  with each part it lacks taken from the memory, which it leaves as it is. The result is
  the events and the memory after the window.
\<close>

fun correlate ::
  "string option \<times> string option \<Rightarrow> classified list
     \<Rightarrow> auth_event list \<times> (string option \<times> string option)" where
  "correlate mem [] = ([], mem)"
| "correlate (last_username, last_ip) (r # rs) =
     (if c_kind r = ''successful_login'' \<or> c_kind r = ''failed_login'' then
        (let mem' = ((case c_user r of None \<Rightarrow> last_username | Some u \<Rightarrow> Some u),
                     (case c_ip r of None \<Rightarrow> last_ip | Some i \<Rightarrow> Some i));
             (es, mem'') = correlate mem' rs
         in (\<lparr>a_type = c_kind r, a_username = c_user r, a_src_ip = c_ip r, a_raw = c_raw r\<rparr> # es,
             mem''))
      else
        (let (es, mem'') = correlate (last_username, last_ip) rs
         in (\<lparr>a_type = c_kind r,
               a_username = (case c_user r of None \<Rightarrow> last_username | Some u \<Rightarrow> Some u),
               a_src_ip = (case c_ip r of None \<Rightarrow> last_ip | Some i \<Rightarrow> Some i),
               a_raw = c_raw r\<rparr> # es,
             mem'')))"

text \<open>
  Session-level dedup: of the logout lines of the session manager, a line that embeds a
  session identifier is kept only if no earlier logout line embeds the same one.
\<close>

fun first_per_session :: "string list \<Rightarrow> string list \<Rightarrow> string list" where
  "first_per_session earlier [] = []"
| "first_per_session earlier (l # ls) =
     (if session_id l \<noteq> None \<and> session_id l \<in> set (map session_id earlier)
      then first_per_session (earlier @ [l]) ls
      else l # first_per_session (earlier @ [l]) ls)"


subsection \<open>The kind markers\<close>

text \<open>
  The kind markers of the classifier, as the specification lists them, on the line in
  lower case: a failed credential, an accepted credential, a session termination.
\<close>

definition failed_marker :: "string \<Rightarrow> bool" where
  "failed_marker line =
     (contains ''failed password'' (lower line) \<or> contains ''invalid user'' (lower line))"

definition accepted_marker :: "string \<Rightarrow> bool" where
  "accepted_marker line =
     (contains ''accepted password'' (lower line) \<or> contains ''accepted publickey'' (lower line))"

definition termination_marker :: "string \<Rightarrow> bool" where
  "termination_marker line =
     (contains ''session closed for user'' (lower line) \<or> contains ''disconnected from'' (lower line)
      \<or> contains ''received disconnect'' (lower line) \<or> contains ''session closed'' (lower line))"

text \<open>The kinds of the events that a list of events holds for one raw line, in order.\<close>

definition kinds_of_line :: "string \<Rightarrow> auth_event list \<Rightarrow> string list" where
  "kinds_of_line line evs = map a_type (filter (\<lambda>e. a_raw e = line) evs)"


section \<open>The Windows agent\<close>

record win_event =
  we_type :: string
  we_src_ip :: "string option"
  we_username :: "string option"
  we_timestamp :: string
  we_raw :: string

text \<open>A literal under \<^verbatim>\<open>re.IGNORECASE\<close>.\<close>

definition starts_with_ci :: "string \<Rightarrow> string \<Rightarrow> bool" where
  "starts_with_ci lit s = starts_with (lower lit) (lower (take (length lit) s))"

text \<open>\<^verbatim>\<open>\s+\<close>: the rest after the white space, of which there must be some.\<close>

definition spaces_then :: "string \<Rightarrow> string option" where
  "spaces_then s = (let r = dropWhile is_space s in if r \<noteq> s then Some r else None)"

text \<open>
  \<^verbatim>\<open>USER_IP_RE = for\s+(\S+)\s+from\s+((\d{1,3}\.){3}\d{1,3})\<close>, case ignored, at the start
  of the text: the user and the address.
\<close>

definition user_ip_at :: "string \<Rightarrow> (string \<times> string) option" where
  "user_ip_at s =
     (if starts_with_ci ''for'' s then
        (case spaces_then (drop 3 s) of None \<Rightarrow> None | Some r1 \<Rightarrow>
           let w = takeWhile (\<lambda>c. \<not> is_space c) r1 in
           if w = [] then None
           else
             (case spaces_then (dropWhile (\<lambda>c. \<not> is_space c) r1) of None \<Rightarrow> None | Some r2 \<Rightarrow>
                if starts_with_ci ''from'' r2 then
                  (case spaces_then (drop 4 r2) of None \<Rightarrow> None | Some r3 \<Rightarrow>
                     (case ip_at r3 of None \<Rightarrow> None | Some ip \<Rightarrow> Some (w, ip)))
                else None))
      else None)"

text \<open>\<^verbatim>\<open>parse_openssh_message\<close>: nothing, or the kind, the username and the source IP.\<close>

definition parse_openssh_message :: "string \<Rightarrow> (string \<times> string option \<times> string option) option" where
  "parse_openssh_message msg =
     (let lower = lower msg;
          etype =
            (if contains ''failed password'' lower \<or> contains ''invalid user'' lower
               then Some ''failed_login''
             else if contains ''accepted password'' lower \<or> contains ''accepted publickey'' lower
               then Some ''successful_login''
             else if contains ''disconnected from'' lower \<or> contains ''connection closed'' lower
                  \<or> contains ''session closed'' lower
               then Some ''logout''
             else None)
      in case etype of
           None \<Rightarrow> None
         | Some t \<Rightarrow>
             (case re_search user_ip_at msg of
                Some (username, src_ip) \<Rightarrow> Some (t, Some username, Some src_ip)
              | None \<Rightarrow> Some (t, None, re_search ip_at msg)))"

text \<open>
  \<^verbatim>\<open>run_ps_json\<close>: the decoded output of the PowerShell query, \<open>None\<close> when there is no
  output or it is not JSON; one object counts as a list of one.
\<close>

definition run_ps_json :: "pyval option \<Rightarrow> pyval list" where
  "run_ps_json out =
     (case out of
        Some (PDict kvs) \<Rightarrow> [PDict kvs]
      | Some (PList xs) \<Rightarrow> xs
      | _ \<Rightarrow> [])"

text \<open>
  An element of the set \<^verbatim>\<open>SEEN_OPENSSH_RECORDS\<close>: a list or a dict cannot be hashed, and
  \<^verbatim>\<open>True\<close> and \<^verbatim>\<open>False\<close> are the numbers 1 and 0.
\<close>

fun set_key :: "pyval \<Rightarrow> py_error + pyval" where
  "set_key (PList xs) = Inl TypeError"
| "set_key (PDict kvs) = Inl TypeError"
| "set_key (PBool b) = Inr (PNum (if b then 1 else 0))"
| "set_key v = Inr v"

text \<open>The test of lines 156 and 222: no source IP, or one of the two loopback texts.\<close>

definition no_peer :: "string option \<Rightarrow> bool" where
  "no_peer src_ip = (\<not> filled src_ip \<or> src_ip = Some ''127.0.0.1'' \<or> src_ip = Some ''::1'')"

text \<open>
  The body of the loop of \<^verbatim>\<open>collect_from_openssh_operational\<close>, lines 141 to 172: the set of
  record identifiers after the record, and the event, nothing (a \<^verbatim>\<open>continue\<close>) or the
  exception. The Oman time taken from \<^verbatim>\<open>TimeCreated\<close>, or from the clock when that fails,
  is the parameter \<open>ts_of\<close>.
\<close>

definition openssh_record ::
  "(pyval \<Rightarrow> string) \<Rightarrow> pyval set \<Rightarrow> pyval \<Rightarrow> pyval set \<times> (py_error + win_event option)" where
  "openssh_record ts_of seen r =
     (case py_get r ''RecordId'' PNone of
        Inl e \<Rightarrow> (seen, Inl e)
      | Inr rid \<Rightarrow>
          if rid = PNone then (seen, Inr None)
          else
            (case set_key rid of
               Inl e \<Rightarrow> (seen, Inl e)
             | Inr k \<Rightarrow>
                 if k \<in> seen then (seen, Inr None)
                 else
                   (insert k seen,
                    and_then (py_get r ''Message'' PNone) (\<lambda>m.
                    and_then (py_strip (py_or m (PStr []))) (\<lambda>msg.
                      if msg = [] then Inr None
                      else
                        (case parse_openssh_message msg of
                           None \<Rightarrow> Inr None
                         | Some (etype, username, src_ip) \<Rightarrow>
                             if no_peer src_ip then Inr None
                             else
                               and_then (py_get r ''TimeCreated'' PNone) (\<lambda>tc.
                                 Inr (Some \<lparr>we_type = etype, we_src_ip = src_ip,
                                           we_username = username, we_timestamp = ts_of tc,
                                           we_raw = msg\<rparr>))))))))"

fun openssh_loop ::
  "(pyval \<Rightarrow> string) \<Rightarrow> pyval set \<Rightarrow> pyval list \<Rightarrow> pyval set \<times> (py_error + win_event list)" where
  "openssh_loop ts_of seen [] = (seen, Inr [])"
| "openssh_loop ts_of seen (r # rs) =
     (case openssh_record ts_of seen r of
        (seen', Inl e) \<Rightarrow> (seen', Inl e)
      | (seen', Inr None) \<Rightarrow> openssh_loop ts_of seen' rs
      | (seen', Inr (Some ev)) \<Rightarrow>
          (case openssh_loop ts_of seen' rs of
             (seen'', Inl e) \<Rightarrow> (seen'', Inl e)
           | (seen'', Inr evs) \<Rightarrow> (seen'', Inr (ev # evs))))"

text \<open>
  \<^verbatim>\<open>collect_from_openssh_operational\<close>: the set \<^verbatim>\<open>SEEN_OPENSSH_RECORDS\<close> after the call, and
  the events returned or the exception raised.
\<close>

definition collect_from_openssh_operational ::
  "(pyval \<Rightarrow> string) \<Rightarrow> pyval set \<Rightarrow> pyval option \<Rightarrow> pyval set \<times> (py_error + win_event list)" where
  "collect_from_openssh_operational ts_of seen out = openssh_loop ts_of seen (run_ps_json out)"


subsection \<open>The offset checkpoint\<close>

text \<open>
  Files: a path has a content or does not exist. The state file lies beside the script;
  its directory is left out of its name.
\<close>

type_synonym file_system = "string \<Rightarrow> string option"

definition STATE_FILE :: string where
  "STATE_FILE = ''win11_sshd_offset.state''"

definition LOG_PATHS :: "string list" where
  "LOG_PATHS =
     [''C:'' @ [CHR 0x5C] @ ''ProgramData'' @ [CHR 0x5C] @ ''ssh'' @ [CHR 0x5C] @ ''logs''
        @ [CHR 0x5C] @ ''sshd.log'',
      ''C:'' @ [CHR 0x5C] @ ''ProgramData'' @ [CHR 0x5C] @ ''ssh'' @ [CHR 0x5C] @ ''sshd.log'']"

text \<open>\<^verbatim>\<open>str(n)\<close> of a number that is not negative.\<close>

definition digit_char :: "nat \<Rightarrow> char" where
  "digit_char d = char_of (48 + d)"

function str_nat :: "nat \<Rightarrow> string" where
  "str_nat n = (if n < 10 then [digit_char n] else str_nat (n div 10) @ [digit_char (n mod 10)])"
  by pat_completeness auto
termination
  by (relation "measure id") auto

declare str_nat.simps [simp del]

text \<open>
  \<^verbatim>\<open>int(s)\<close> of a text: white space around, a sign, and decimal digits, between which
  single underscores may stand; \<open>None\<close> is \<^verbatim>\<open>ValueError\<close>.
\<close>

definition digit_val :: "char \<Rightarrow> nat" where
  "digit_val c = of_char c - 48"

definition nat_of_digits :: "string \<Rightarrow> nat" where
  "nat_of_digits ds = foldl (\<lambda>a c. 10 * a + digit_val c) 0 ds"

fun int_literal :: "bool \<Rightarrow> string \<Rightarrow> bool" where
  "int_literal after_digit [] = after_digit"
| "int_literal after_digit (c # cs) =
     (if is_digit c then int_literal True cs
      else c = CHR ''_'' \<and> after_digit \<and> int_literal False cs)"

definition py_int :: "string \<Rightarrow> int option" where
  "py_int s =
     (let t = strip s;
          (negative, body) =
            (case t of
               [] \<Rightarrow> (False, t)
             | c # r \<Rightarrow> if c = CHR ''-'' then (True, r)
                        else if c = CHR ''+'' then (False, r) else (False, t))
      in if int_literal False body
         then Some ((if negative then - 1 else 1) * int (nat_of_digits (filter is_digit body)))
         else None)"

definition or_zero :: "string \<Rightarrow> string" where
  "or_zero s = (if s = [] then ''0'' else s)"

text \<open>
  \<^verbatim>\<open>read_file_new_lines(path)\<close>: the lines returned and the files after the call. The
  permissive UTF-8 decoding (\<^verbatim>\<open>errors="ignore"\<close>) of the state file and of the bytes read
  is the parameter \<open>decode\<close>. Every exception inside the \<^verbatim>\<open>try\<close> (a state file that is
  no number, an offset that \<^verbatim>\<open>seek\<close> refuses) gives no lines and leaves the files as they
  are, since the state file is written after the read.
\<close>

definition read_file_new_lines ::
  "(string \<Rightarrow> string) \<Rightarrow> file_system \<Rightarrow> string \<Rightarrow> string list \<times> file_system" where
  "read_file_new_lines decode fs path =
     (case fs path of
        None \<Rightarrow> ([], fs)
      | Some content \<Rightarrow>
          (case (case fs STATE_FILE of
                   None \<Rightarrow> Some 0
                 | Some state \<Rightarrow> py_int (or_zero (strip (or_zero (decode state))))) of
             None \<Rightarrow> ([], fs)
           | Some offset \<Rightarrow>
               if offset < 0 \<or> offset \<ge> 2 ^ 63 then ([], fs)
               else
                 let chunk = drop (nat offset) content;
                     new_offset = nat offset + length chunk;
                     fs' = fs(STATE_FILE \<mapsto> str_nat new_offset);
                     text = decode chunk
                 in (filter (\<lambda>l. l \<noteq> []) (map strip (splitlines text)), fs')))"

text \<open>The body of the loop of \<^verbatim>\<open>collect_from_sshd_logfile\<close>, lines 218 to 230.\<close>

definition logfile_event :: "string \<Rightarrow> string \<Rightarrow> win_event option" where
  "logfile_event now_oman line =
     (case parse_openssh_message line of
        None \<Rightarrow> None
      | Some (etype, username, src_ip) \<Rightarrow>
          if no_peer src_ip then None
          else Some \<lparr>we_type = etype, we_src_ip = src_ip, we_username = username,
                     we_timestamp = now_oman, we_raw = line\<rparr>)"

text \<open>
  \<^verbatim>\<open>collect_from_sshd_logfile\<close>: the new lines of the first log path that exists.
\<close>

definition collect_from_sshd_logfile ::
  "(string \<Rightarrow> string) \<Rightarrow> string \<Rightarrow> file_system \<Rightarrow> win_event list \<times> file_system" where
  "collect_from_sshd_logfile decode now_oman fs =
     (case find (\<lambda>p. fs p \<noteq> None) LOG_PATHS of
        None \<Rightarrow> ([], fs)
      | Some p \<Rightarrow>
          (case read_file_new_lines decode fs p of
             (lines, fs') \<Rightarrow> (List.map_filter (logfile_event now_oman) lines, fs')))"


section \<open>Verified properties\<close>

subsection \<open>Sequencing\<close>

lemma and_then_Inr [simp]: "and_then (Inr x) f = f x"
  by (simp add: and_then_def)

lemma and_then_Inl [simp]: "and_then (Inl e) f = Inl e"
  by (simp add: and_then_def)

text \<open>
  Evaluation reads the first statement before the rest: without this rule the simplifier
  would unfold the continuation on a database it does not know yet.
\<close>

lemma and_then_weak_cong: "m = m' \<Longrightarrow> and_then m f = and_then m' f"
  by simp

subsection \<open>The metric alert state machine\<close>

text \<open>For a text host no statement of \<open>handle_metric\<close> raises; its four outcomes.\<close>

lemma handle_metric_text:
  "handle_metric now db (PStr h) host_ip kind v threshold =
     (let r = map_of (metric_state db) (PStr h, kind);
          prev_status = (case r of None \<Rightarrow> ''normal'' | Some r \<Rightarrow> status r);
          prev_value = (case r of None \<Rightarrow> None | Some r \<Rightarrow> last_value r);
          put = (\<lambda>lvl ph st. Inr (db\<lparr>events := events db @ [\<lparr>ev_host = PStr h, ev_level = PStr lvl,
                    ev_message = Metric_msg ph kind (PStr h) host_ip v\<rparr>],
                  metric_state := AList.update (PStr h, kind) \<lparr>status = st, last_value = Some v, updated_ts = now\<rparr>
                    (metric_state db)\<rparr>))
      in if v \<ge> threshold \<and> prev_status \<noteq> ''high'' then put ''critical'' High_on ''high''
         else if v \<ge> threshold then
           (if (case prev_value of None \<Rightarrow> True | Some pv \<Rightarrow> \<bar>v - pv\<bar> \<ge> METRIC_DELTA_RESEND)
            then put ''critical'' Still_high_on ''high'' else Inr db)
         else if prev_status = ''high'' then put ''info'' Back_to_normal_on ''normal''
         else Inr (db\<lparr>metric_state := AList.update (PStr h, kind) \<lparr>status = ''normal'', last_value = Some v, updated_ts = now\<rparr>
                    (metric_state db)\<rparr>))"
  by (simp add: handle_metric_def get_metric_state_def set_metric_state_def insert_event_def
        and_then_def Let_def split: option.splits)

text \<open>
  One evaluation from a well-formed row: it succeeds, keeps the row well formed, appends
  what the table asks for this value, and leaves the table in the state from which the rest
  of the sequence is judged.
\<close>

lemma handle_metric_step:
  assumes "row_ok db (PStr h) kind"
  shows "case handle_metric now db (PStr h) host_ip kind v threshold of
           Inl e \<Rightarrow> False
         | Inr db' \<Rightarrow>
             row_ok db' (PStr h) kind
           \<and> events db' = events db @ map (alert_row (PStr h) host_ip kind)
                 (case fst (table_step threshold (stored db (PStr h) kind) v) of None \<Rightarrow> [] | Some a \<Rightarrow> [a])
           \<and> stored db' (PStr h) kind = snd (table_step threshold (stored db (PStr h) kind) v)"
proof (cases "map_of (metric_state db) (PStr h, kind)")
  case None
  then show ?thesis
    by (simp add: handle_metric_text row_ok_def stored_def alert_row_def AList.update_conv' Let_def)
next
  case (Some r)
  note row = this
  show ?thesis
  proof (cases "last_value r")
    case None
    with row assms have "status r \<noteq> ''high''"
      by (simp add: row_ok_def stored_def)
    with row None show ?thesis
      by (simp add: handle_metric_text row_ok_def stored_def alert_row_def AList.update_conv' Let_def)
  next
    case (Some pv)
    with row show ?thesis
      by (simp add: handle_metric_text row_ok_def stored_def alert_row_def AList.update_conv' Let_def)
  qed
qed

text \<open>
  The rows are well formed in the empty database, and whatever pair is evaluated, they
  stay so: every database that only \<open>handle_metric\<close> wrote to has well-formed rows.
\<close>

lemma row_ok_init: "row_ok init_db host kind"
  by (simp add: row_ok_def stored_def init_db_def)

lemma handle_metric_row_ok:
  assumes "handle_metric now db host' host_ip' kind' v threshold = Inr db'"
    and "row_ok db host kind"
  shows "row_ok db' host kind"
  using assms
  by (auto simp: handle_metric_def get_metric_state_def set_metric_state_def insert_event_def
        and_then_def Let_def row_ok_def stored_def AList.update_conv'
        split: if_splits option.splits sum.splits prod.splits)

lemma handle_metric_seq_alerts:
  assumes "row_ok db (PStr h) kind"
  shows "map_sum id events (handle_metric_seq db (PStr h) host_ip kind threshold tvs)
         = Inr (events db @ map (alert_row (PStr h) host_ip kind)
                 (spec_alerts threshold (stored db (PStr h) kind) (map snd tvs)))"
  using assms
proof (induction tvs arbitrary: db)
  case Nil
  then show ?case by simp
next
  case (Cons tv tvs)
  obtain now v where tv: "tv = (now, v)" by (cases tv)
  obtain a st' where ts: "table_step threshold (stored db (PStr h) kind) v = (a, st')"
    by (cases "table_step threshold (stored db (PStr h) kind) v")
  from handle_metric_step [OF Cons.prems, where now = now and host_ip = host_ip and v = v and threshold = threshold]
  obtain db' where step: "handle_metric now db (PStr h) host_ip kind v threshold = Inr db'"
    and ok: "row_ok db' (PStr h) kind"
    and ev: "events db' = events db @ map (alert_row (PStr h) host_ip kind) (case a of None \<Rightarrow> [] | Some a \<Rightarrow> [a])"
    and st: "stored db' (PStr h) kind = st'"
    by (cases "handle_metric now db (PStr h) host_ip kind v threshold") (simp_all add: ts)
  have run: "handle_metric_seq db (PStr h) host_ip kind threshold (tv # tvs)
             = handle_metric_seq db' (PStr h) host_ip kind threshold tvs"
    by (simp add: tv step)
  have "spec_alerts threshold (stored db (PStr h) kind) (map snd (tv # tvs))
        = (case a of None \<Rightarrow> [] | Some a \<Rightarrow> [a]) @ spec_alerts threshold st' (map snd tvs)"
    by (simp add: tv ts split: option.splits)
  with Cons.IH [OF ok] show ?case
    by (simp only: run st ev map_append append_assoc)
qed

text \<open>
  C1. For every sequence of evaluations of one (host, kind) pair, the host a text, against
  one threshold, started from a row that \<open>handle_metric\<close> could have written (or from no row), every
  evaluation succeeds and the events appended are exactly those of the transition table:
  one critical alert on each crossing from normal or absent to a value at or above the
  threshold, one further critical alert for each value that deviates from the stored last
  value by at least the resend delta 5.0 while the status stays high, one info alert on each
  return below the threshold, and nothing else. From the empty database the values 70, 82,
  84, 90, 78 against the threshold 80 give exactly three alerts: critical at 82, critical
  (still high) at 90, info at 78.
\<close>

theorem handle_metric_hysteresis:
  "(row_ok db (PStr h) kind \<longrightarrow>
      map_sum id events (handle_metric_seq db (PStr h) host_ip kind threshold tvs)
      = Inr (events db @ map (alert_row (PStr h) host_ip kind)
               (spec_alerts threshold (stored db (PStr h) kind) (map snd tvs))))
   \<and> map_sum id events
        (handle_metric_seq init_db (PStr h) host_ip kind 80
           [(t1, 70), (t2, 82), (t3, 84), (t4, 90), (t5, 78)])
     = Inr [\<lparr>ev_host = PStr h, ev_level = PStr ''critical'',
               ev_message = Metric_msg High_on kind (PStr h) host_ip 82\<rparr>,
            \<lparr>ev_host = PStr h, ev_level = PStr ''critical'',
               ev_message = Metric_msg Still_high_on kind (PStr h) host_ip 90\<rparr>,
            \<lparr>ev_host = PStr h, ev_level = PStr ''info'',
               ev_message = Metric_msg Back_to_normal_on kind (PStr h) host_ip 78\<rparr>]"
proof (intro conjI impI)
  assume "row_ok db (PStr h) kind"
  then show "map_sum id events (handle_metric_seq db (PStr h) host_ip kind threshold tvs)
      = Inr (events db @ map (alert_row (PStr h) host_ip kind)
               (spec_alerts threshold (stored db (PStr h) kind) (map snd tvs)))"
    by (rule handle_metric_seq_alerts)
next
  show "map_sum id events
        (handle_metric_seq init_db (PStr h) host_ip kind 80
           [(t1, 70), (t2, 82), (t3, 84), (t4, 90), (t5, 78)])
     = Inr [\<lparr>ev_host = PStr h, ev_level = PStr ''critical'',
               ev_message = Metric_msg High_on kind (PStr h) host_ip 82\<rparr>,
            \<lparr>ev_host = PStr h, ev_level = PStr ''critical'',
               ev_message = Metric_msg Still_high_on kind (PStr h) host_ip 90\<rparr>,
            \<lparr>ev_host = PStr h, ev_level = PStr ''info'',
               ev_message = Metric_msg Back_to_normal_on kind (PStr h) host_ip 78\<rparr>]"
    by (simp add: handle_metric_def get_metric_state_def set_metric_state_def insert_event_def
          init_db_def METRIC_DELTA_RESEND_def cong: and_then_weak_cong)
qed

theorem handle_metric_hysteresis_witness:
  "row_ok init_db (PStr ''web01'') ''cpu''
   \<and> map_sum id events
       (handle_metric_seq init_db (PStr ''web01'') (PStr ''10.10.1.5'') ''cpu'' 80
          [(''2024-05-01 10:00:00'', 91), (''2024-05-01 10:00:05'', 93), (''2024-05-01 10:00:10'', 40)])
     = Inr [\<lparr>ev_host = PStr ''web01'', ev_level = PStr ''critical'',
               ev_message = Metric_msg High_on ''cpu'' (PStr ''web01'') (PStr ''10.10.1.5'') 91\<rparr>,
            \<lparr>ev_host = PStr ''web01'', ev_level = PStr ''info'',
               ev_message = Metric_msg Back_to_normal_on ''cpu'' (PStr ''web01'') (PStr ''10.10.1.5'') 40\<rparr>]"
proof -
  have ok: "row_ok init_db (PStr ''web01'') ''cpu''"
    by (simp add: row_ok_def stored_def init_db_def)
  from handle_metric_hysteresis [where db = init_db and h = "''web01''" and kind = "''cpu''"
      and host_ip = "PStr ''10.10.1.5''" and threshold = 80
      and tvs = "[(''2024-05-01 10:00:00'', 91), (''2024-05-01 10:00:05'', 93), (''2024-05-01 10:00:10'', 40)]"]
  show ?thesis
    using ok
    by (simp add: stored_def init_db_def alert_row_def METRIC_DELTA_RESEND_def)
qed

text \<open>
  C3. When the stored status of (host, kind) is high and the new value is at or above the
  threshold but less than the resend delta away from the stored last value,
  \<open>handle_metric\<close> returns the database it was given: no event row is added and the
  \<open>metric_state\<close> row keeps its status, its last value and its \<open>updated_ts\<close>.
\<close>

theorem handle_metric_small_drift_untouched:
  assumes "get_metric_state db host kind = Inr (''high'', Some pv)"
    and "v \<ge> threshold"
    and "\<bar>v - pv\<bar> < METRIC_DELTA_RESEND"
  shows "handle_metric now db host host_ip kind v threshold = Inr db"
  using assms by (simp add: handle_metric_def)

theorem handle_metric_small_drift_untouched_witness:
  "get_metric_state
     \<lparr>metrics = [], events = [],
      metric_state = [((PStr ''web01'', ''cpu''),
        \<lparr>status = ''high'', last_value = Some 82, updated_ts = ''2024-05-01 10:00:00''\<rparr>)]\<rparr>
     (PStr ''web01'') ''cpu'' = Inr (''high'', Some 82)
   \<and> (84::real) \<ge> 80 \<and> \<bar>(84::real) - 82\<bar> < METRIC_DELTA_RESEND
   \<and> handle_metric ''2024-05-01 10:00:05''
       \<lparr>metrics = [], events = [],
        metric_state = [((PStr ''web01'', ''cpu''),
          \<lparr>status = ''high'', last_value = Some 82, updated_ts = ''2024-05-01 10:00:00''\<rparr>)]\<rparr>
       (PStr ''web01'') (PStr ''10.10.1.5'') ''cpu'' 84 80
     = Inr \<lparr>metrics = [], events = [],
        metric_state = [((PStr ''web01'', ''cpu''),
          \<lparr>status = ''high'', last_value = Some 82, updated_ts = ''2024-05-01 10:00:00''\<rparr>)]\<rparr>"
proof -
  let ?db = "\<lparr>metrics = [], events = [],
      metric_state = [((PStr ''web01'', ''cpu''),
        \<lparr>status = ''high'', last_value = Some 82, updated_ts = ''2024-05-01 10:00:00''\<rparr>)]\<rparr>"
  have g: "get_metric_state ?db (PStr ''web01'') ''cpu'' = Inr (''high'', Some 82)"
    by (simp add: get_metric_state_def)
  have d: "\<bar>(84::real) - 82\<bar> < METRIC_DELTA_RESEND"
    by (simp add: METRIC_DELTA_RESEND_def)
  have t: "(84::real) \<ge> 80" by simp
  from handle_metric_small_drift_untouched [OF g t d] g d show ?thesis by simp
qed

subsection \<open>The ingest endpoint\<close>

text \<open>\<open>handle_metric\<close> never touches the \<^verbatim>\<open>metrics\<close> table.\<close>

lemma handle_metric_metrics:
  "handle_metric now db host host_ip kind v threshold = Inr db' \<Longrightarrow> metrics db' = metrics db"
  by (auto simp: handle_metric_def get_metric_state_def set_metric_state_def insert_event_def
        and_then_def Let_def split: if_splits option.splits sum.splits)

lemma evaluate_metrics_metrics:
  "evaluate_metrics now_of db sub = Inr db' \<Longrightarrow> metrics db' = metrics db"
  by (auto simp: evaluate_metrics_def and_then_def split: sum.splits dest!: handle_metric_metrics)

text \<open>
  The loop over the auth events: when no item raises it appends one row per item that has
  a type; when some item raises, so does the loop.
\<close>

lemma auth_events_loop_rows:
  assumes "bindable host" and "\<forall>e\<in>set evs. \<not> isl (auth_event_alert host_ip e)"
  shows "auth_events_loop db host host_ip evs
         = Inr (db\<lparr>events := events db @ auth_rows host host_ip evs\<rparr>)"
  using assms(2)
proof (induction evs arbitrary: db)
  case Nil
  then show ?case by (simp add: auth_rows_def)
next
  case (Cons e evs)
  from Cons.prems obtain a where a: "auth_event_alert host_ip e = Inr a"
    by (cases "auth_event_alert host_ip e") auto
  from Cons.prems have rest: "\<forall>e\<in>set evs. \<not> isl (auth_event_alert host_ip e)" by simp
  show ?case
  proof (cases a)
    case None
    with a Cons.IH [OF rest] show ?thesis by (simp add: auth_rows_def)
  next
    case (Some lm)
    obtain level msg where lm: "lm = (level, msg)" by (cases lm)
    from a Some lm have "bindable_message msg"
      by (auto simp: auth_event_alert_def and_then_def Let_def split: sum.splits if_splits)
    with a Some lm assms(1) Cons.IH [OF rest] show ?thesis
      by (simp add: auth_rows_def insert_event_def)
  qed
qed

lemma auth_events_loop_raises:
  assumes "\<exists>e\<in>set evs. isl (auth_event_alert host_ip e)"
  shows "isl (auth_events_loop db host host_ip evs)"
  using assms
proof (induction evs arbitrary: db)
  case Nil
  then show ?case by simp
next
  case (Cons e evs)
  show ?case
  proof (cases "auth_event_alert host_ip e")
    case (Inl err)
    then show ?thesis by simp
  next
    case (Inr a)
    with Cons.prems have rest: "\<exists>e\<in>set evs. isl (auth_event_alert host_ip e)" by auto
    show ?thesis
    proof (cases a)
      case None
      with Inr Cons.IH [OF rest] show ?thesis by simp
    next
      case (Some lm)
      obtain level msg where lm: "lm = (level, msg)" by (cases lm)
      show ?thesis
      proof (cases "insert_event db host (PStr level) msg")
        case (Inl err)
        with Inr Some lm show ?thesis by simp
      next
        case (Inr db')
        with \<open>auth_event_alert host_ip e = Inr a\<close> Some lm Cons.IH [OF rest] show ?thesis by simp
      qed
    qed
  qed
qed


text \<open>
  Against C2 as it is worded: a submission in the nested shape with a CPU value above the
  threshold and three auth events, the second of which gives \<^verbatim>\<open>src_ip\<close> as a number, so
  that \<^verbatim>\<open>.strip()\<close> raises. Nothing catches the exception: the request ends in an error
  and the stored database is the empty one it found, without the metric snapshot, without
  the CPU alert and without the other two auth events.
\<close>

theorem ingest_bad_auth_event_aborts:
  "ingest example_float example_clock (Some ''10.10.1.5'') (Some API_KEY)
     (PDict (example_payload
        (PDict [(''type'', PStr ''successful_login''), (''src_ip'', PNum 3232235777)])))
     init_db
   = (Server_error AttributeError, init_db)"
  by (simp add: ingest_def commit_def ingest_meta_def extract_meta_def store_snapshot_def
        evaluate_metrics_def handle_metric_def get_metric_state_def set_metric_state_def
        insert_event_def auth_event_alert_def example_payload_def init_db_def py_or_def
        dict_get_def remote_value_def CPU_TH_def MEM_TH_def DISK_TH_def API_KEY_def
        lower_def lower_char_def strip_def is_space_def example_clock_def example_float_def
        cong: and_then_weak_cong)

text \<open>
  C2, amended. For a submission in the nested shape with the right credential whose
  fields are read, whose snapshot is stored and whose three metric evaluations succeed:
  if no auth event of the batch raises in its level and message mapping, the request
  commits the snapshot row, the database of the three evaluations and one event row for
  each auth event that has a type, the items with a missing, empty or blank type being
  skipped without any log entry; if some auth event raises, the request ends in an error
  and the stored database is unchanged.
\<close>

theorem ingest_meta_batch:
  assumes "api_key = Some API_KEY"
    and "map_of payload ''meta'' \<noteq> None \<or> map_of payload ''resources'' \<noteq> None"
    and "extract_meta float_of_str remote_addr payload = Inr sub"
    and "store_snapshot db sub = Inr db1"
    and "evaluate_metrics now_of db1 sub = Inr db2"
    and "py_iter (py_or (dict_get payload ''auth_events'' (PList [])) (PList [])) = Inr evs"
  shows "((\<forall>e\<in>set evs. \<not> isl (auth_event_alert (sub_ip sub) e)) \<longrightarrow>
            ingest float_of_str now_of remote_addr api_key (PDict payload) db
            = (Ok_meta, db2\<lparr>events := events db2 @ auth_rows (sub_host sub) (sub_ip sub) evs\<rparr>)
          \<and> metrics db2 = metrics db @
                [\<lparr>m_host = sub_host sub, m_os = sub_os sub, m_cpu = sub_cpu sub,
                  m_mem = sub_mem sub, m_disk = sub_disk sub, m_net_up = sub_net_up sub,
                  m_net_down = sub_net_down sub, m_ip = sub_ip sub\<rparr>])
       \<and> ((\<exists>e\<in>set evs. isl (auth_event_alert (sub_ip sub) e)) \<longrightarrow>
            (\<exists>err. ingest float_of_str now_of remote_addr api_key (PDict payload) db
                   = (Server_error err, db)))"
proof -
  from assms(2) have ne: "payload \<noteq> []" by auto
  from assms(4) have host: "bindable (sub_host sub)"
    by (auto simp: store_snapshot_def split: if_splits)
  have ing: "ingest float_of_str now_of remote_addr api_key (PDict payload) db
        = commit Ok_meta db (auth_events_loop db2 (sub_host sub) (sub_ip sub) evs)"
    using assms ne by (simp add: ingest_def ingest_meta_def py_or_def)
  have m: "metrics db2 = metrics db @
                [\<lparr>m_host = sub_host sub, m_os = sub_os sub, m_cpu = sub_cpu sub,
                  m_mem = sub_mem sub, m_disk = sub_disk sub, m_net_up = sub_net_up sub,
                  m_net_down = sub_net_down sub, m_ip = sub_ip sub\<rparr>]"
    using evaluate_metrics_metrics [OF assms(5)] assms(4)
    by (auto simp: store_snapshot_def split: if_splits)
  show ?thesis
  proof (intro conjI impI)
    assume "\<forall>e\<in>set evs. \<not> isl (auth_event_alert (sub_ip sub) e)"
    from auth_events_loop_rows [OF host this]
    show "ingest float_of_str now_of remote_addr api_key (PDict payload) db
            = (Ok_meta, db2\<lparr>events := events db2 @ auth_rows (sub_host sub) (sub_ip sub) evs\<rparr>)"
      by (simp add: ing commit_def)
  next
    show "metrics db2 = metrics db @
                [\<lparr>m_host = sub_host sub, m_os = sub_os sub, m_cpu = sub_cpu sub,
                  m_mem = sub_mem sub, m_disk = sub_disk sub, m_net_up = sub_net_up sub,
                  m_net_down = sub_net_down sub, m_ip = sub_ip sub\<rparr>]"
      by (rule m)
  next
    assume "\<exists>e\<in>set evs. isl (auth_event_alert (sub_ip sub) e)"
    from auth_events_loop_raises [OF this, of db2 "sub_host sub"]
    obtain err where "auth_events_loop db2 (sub_host sub) (sub_ip sub) evs = Inl err"
      by (cases "auth_events_loop db2 (sub_host sub) (sub_ip sub) evs") auto
    then show "\<exists>err. ingest float_of_str now_of remote_addr api_key (PDict payload) db
                   = (Server_error err, db)"
      by (simp add: ing commit_def)
  qed
qed

theorem ingest_meta_batch_witness:
  "Some API_KEY = Some API_KEY
   \<and> map_of (example_payload (PDict [(''type'', PStr '' ''), (''src_ip'', PNum 7)])) ''meta'' \<noteq> None
   \<and> extract_meta example_float (Some ''10.10.1.5'')
        (example_payload (PDict [(''type'', PStr '' ''), (''src_ip'', PNum 7)])) = Inr example_sub
   \<and> store_snapshot init_db example_sub = Inr example_db1
   \<and> evaluate_metrics example_clock example_db1 example_sub = Inr example_db2
   \<and> py_iter (py_or (dict_get (example_payload (PDict [(''type'', PStr '' ''), (''src_ip'', PNum 7)]))
                       ''auth_events'' (PList [])) (PList []))
      = Inr [PDict [(''type'', PStr ''failed_login''), (''src_ip'', PStr ''203.0.113.9'')],
             PDict [(''type'', PStr '' ''), (''src_ip'', PNum 7)],
             PDict [(''type'', PStr ''logout''), (''src_ip'', PStr ''10.10.1.6'')]]
   \<and> \<not> isl (auth_event_alert (sub_ip example_sub)
          (PDict [(''type'', PStr ''failed_login''), (''src_ip'', PStr ''203.0.113.9'')]))
   \<and> \<not> isl (auth_event_alert (sub_ip example_sub)
          (PDict [(''type'', PStr '' ''), (''src_ip'', PNum 7)]))
   \<and> \<not> isl (auth_event_alert (sub_ip example_sub)
          (PDict [(''type'', PStr ''logout''), (''src_ip'', PStr ''10.10.1.6'')]))
   \<and> ingest example_float example_clock (Some ''10.10.1.5'') (Some API_KEY)
        (PDict (example_payload (PDict [(''type'', PStr '' ''), (''src_ip'', PNum 7)]))) init_db
      = (Ok_meta, example_db2\<lparr>events := events example_db2 @
           [\<lparr>ev_host = PStr ''web01'', ev_level = PStr ''warning'',
              ev_message = Auth_msg ''WARNING'' ''(TI)'' ''Failed SSH login'' ''203.0.113.9'' (PStr ''10.10.1.5'')\<rparr>,
            \<lparr>ev_host = PStr ''web01'', ev_level = PStr ''warning'',
              ev_message = Auth_msg ''WARNING'' ''(Local)'' ''SSH logout'' ''10.10.1.6'' (PStr ''10.10.1.5'')\<rparr>]\<rparr>)
   \<and> isl (auth_event_alert (sub_ip example_sub)
        (PDict [(''type'', PStr ''logout''), (''src_ip'', PList [PStr ''10.10.1.6'']) ]))
   \<and> snd (ingest example_float example_clock (Some ''10.10.1.5'') (Some API_KEY)
        (PDict (example_payload
           (PDict [(''type'', PStr ''logout''), (''src_ip'', PList [PStr ''10.10.1.6''])]))) init_db)
      = init_db"
proof -
  let ?p = "example_payload (PDict [(''type'', PStr '' ''), (''src_ip'', PNum 7)])"
  let ?evs = "[PDict [(''type'', PStr ''failed_login''), (''src_ip'', PStr ''203.0.113.9'')],
             PDict [(''type'', PStr '' ''), (''src_ip'', PNum 7)],
             PDict [(''type'', PStr ''logout''), (''src_ip'', PStr ''10.10.1.6'')]]"
  have h1: "Some API_KEY = Some API_KEY" by simp
  have h2: "map_of ?p ''meta'' \<noteq> None \<or> map_of ?p ''resources'' \<noteq> None"
    by (simp add: example_payload_def)
  have h3: "extract_meta example_float (Some ''10.10.1.5'') ?p = Inr example_sub"
    by (simp add: extract_meta_def example_payload_def example_sub_def py_or_def dict_get_def
          remote_value_def example_float_def)
  have h4: "store_snapshot init_db example_sub = Inr example_db1"
    by (simp add: store_snapshot_def example_sub_def example_db1_def init_db_def)
  have h5: "evaluate_metrics example_clock example_db1 example_sub = Inr example_db2"
    by (simp add: evaluate_metrics_def handle_metric_def get_metric_state_def set_metric_state_def
          insert_event_def example_sub_def example_db1_def example_db2_def
          CPU_TH_def MEM_TH_def DISK_TH_def example_clock_def cong: and_then_weak_cong)
  have h6: "py_iter (py_or (dict_get ?p ''auth_events'' (PList [])) (PList [])) = Inr ?evs"
    by (simp add: example_payload_def py_or_def dict_get_def)
  have a1: "auth_event_alert (PStr ''10.10.1.5'')
              (PDict [(''type'', PStr ''failed_login''), (''src_ip'', PStr ''203.0.113.9'')])
            = Inr (Some (''warning'', Auth_msg ''WARNING'' ''(TI)'' ''Failed SSH login'' ''203.0.113.9'' (PStr ''10.10.1.5'')))"
    by (simp add: auth_event_alert_def py_or_def lower_def lower_char_def upper_def upper_char_def
          strip_def is_space_def LOCAL_TI_def)
  have a2: "auth_event_alert (PStr ''10.10.1.5'') (PDict [(''type'', PStr '' ''), (''src_ip'', PNum 7)])
            = Inr None"
    by (simp add: auth_event_alert_def py_or_def lower_def lower_char_def strip_def is_space_def)
  have a3: "auth_event_alert (PStr ''10.10.1.5'')
              (PDict [(''type'', PStr ''logout''), (''src_ip'', PStr ''10.10.1.6'')])
            = Inr (Some (''warning'', Auth_msg ''WARNING'' ''(Local)'' ''SSH logout'' ''10.10.1.6'' (PStr ''10.10.1.5'')))"
    by (simp add: auth_event_alert_def py_or_def lower_def lower_char_def upper_def upper_char_def
          strip_def is_space_def LOCAL_TI_def)
  have ip: "sub_ip example_sub = PStr ''10.10.1.5''" and host: "sub_host example_sub = PStr ''web01''"
    by (simp_all add: example_sub_def)
  have h7: "\<forall>e\<in>set ?evs. \<not> isl (auth_event_alert (sub_ip example_sub) e)"
    by (simp add: ip a1 a2 a3)
  from ingest_meta_batch [OF h1 h2 h3 h4 h5 h6] h7
  have "ingest example_float example_clock (Some ''10.10.1.5'') (Some API_KEY) (PDict ?p) init_db
        = (Ok_meta, example_db2\<lparr>events := events example_db2 @ auth_rows (sub_host example_sub) (sub_ip example_sub) ?evs\<rparr>)"
    by blast
  moreover have "auth_rows (sub_host example_sub) (sub_ip example_sub) ?evs
        = [\<lparr>ev_host = PStr ''web01'', ev_level = PStr ''warning'',
              ev_message = Auth_msg ''WARNING'' ''(TI)'' ''Failed SSH login'' ''203.0.113.9'' (PStr ''10.10.1.5'')\<rparr>,
            \<lparr>ev_host = PStr ''web01'', ev_level = PStr ''warning'',
              ev_message = Auth_msg ''WARNING'' ''(Local)'' ''SSH logout'' ''10.10.1.6'' (PStr ''10.10.1.5'')\<rparr>]"
    by (simp add: auth_rows_def ip host a1 a2 a3)
  moreover have m: "map_of ?p ''meta'' \<noteq> None"
    by (simp add: example_payload_def)
  moreover have bad: "snd (ingest example_float example_clock (Some ''10.10.1.5'') (Some API_KEY)
        (PDict (example_payload
           (PDict [(''type'', PStr ''logout''), (''src_ip'', PList [PStr ''10.10.1.6''])]))) init_db)
      = init_db"
      and b2: "isl (auth_event_alert (sub_ip example_sub)
        (PDict [(''type'', PStr ''logout''), (''src_ip'', PList [PStr ''10.10.1.6''])]))"
  proof -
    let ?b = "PDict [(''type'', PStr ''logout''), (''src_ip'', PList [PStr ''10.10.1.6''])]"
    let ?q = "example_payload ?b"
    have g2: "map_of ?q ''meta'' \<noteq> None \<or> map_of ?q ''resources'' \<noteq> None"
      by (simp add: example_payload_def)
    have g3: "extract_meta example_float (Some ''10.10.1.5'') ?q = Inr example_sub"
      by (simp add: extract_meta_def example_payload_def example_sub_def py_or_def dict_get_def
            remote_value_def example_float_def)
    have g6: "py_iter (py_or (dict_get ?q ''auth_events'' (PList [])) (PList []))
              = Inr [PDict [(''type'', PStr ''failed_login''), (''src_ip'', PStr ''203.0.113.9'')], ?b,
                     PDict [(''type'', PStr ''logout''), (''src_ip'', PStr ''10.10.1.6'')]]"
      by (simp add: example_payload_def py_or_def dict_get_def)
    show r: "isl (auth_event_alert (sub_ip example_sub) ?b)"
      by (simp add: ip auth_event_alert_def py_or_def lower_def lower_char_def strip_def is_space_def)
    then have "\<exists>e\<in>set [PDict [(''type'', PStr ''failed_login''), (''src_ip'', PStr ''203.0.113.9'')], ?b,
                     PDict [(''type'', PStr ''logout''), (''src_ip'', PStr ''10.10.1.6'')]].
                 isl (auth_event_alert (sub_ip example_sub) e)"
      by simp
    with ingest_meta_batch [OF h1 g2 g3 h4 h5 g6]
    obtain err where "ingest example_float example_clock (Some ''10.10.1.5'') (Some API_KEY)
                        (PDict ?q) init_db = (Server_error err, init_db)"
      by blast
    then show "snd (ingest example_float example_clock (Some ''10.10.1.5'') (Some API_KEY)
                        (PDict ?q) init_db) = init_db"
      by simp
  qed
  ultimately show ?thesis
    using h3 h4 h5 h6 by (simp add: ip a1 a2 a3)
qed

text \<open>
  C9. A request whose \<^verbatim>\<open>X-API-Key\<close> header is absent or differs from the key is
  answered as unauthorized and the stored database is the one the request found: no
  \<^verbatim>\<open>metrics\<close> row, no \<^verbatim>\<open>events\<close> row and no \<^verbatim>\<open>metric_state\<close> change.
\<close>

theorem ingest_unauthorized:
  assumes "api_key \<noteq> Some API_KEY"
  shows "ingest float_of_str now_of remote_addr api_key body db = (Unauthorized, db)"
  using assms by (simp add: ingest_def)


theorem ingest_unauthorized_witness:
  "None \<noteq> Some API_KEY \<and> Some ''CHANGE_ME'' \<noteq> Some API_KEY
   \<and> ingest example_float example_clock (Some ''10.10.1.5'') None
        (PDict (example_payload (PDict [(''type'', PStr ''logout'')]))) example_db2
      = (Unauthorized, example_db2)
   \<and> ingest example_float example_clock (Some ''10.10.1.5'') (Some ''CHANGE_ME'')
        (PDict (example_payload (PDict [(''type'', PStr ''logout'')]))) example_db2
      = (Unauthorized, example_db2)"
proof -
  have a: "None \<noteq> Some API_KEY" by simp
  have w: "Some ''CHANGE_ME'' \<noteq> Some API_KEY" by (simp add: API_KEY_def)
  from ingest_unauthorized [OF a] ingest_unauthorized [OF w] a w show ?thesis by simp
qed

subsection \<open>The Linux agent\<close>

text \<open>What the extractions return is never the empty text.\<close>

lemma re_search_Some:
  assumes "re_search m s = Some r"
  shows "\<exists>t. m t = Some r"
  using assms by (induction s) (auto split: option.splits)

lemma ip_at_nonempty: "ip_at s = Some i \<Longrightarrow> i \<noteq> []"
  by (auto simp: ip_at_def Let_def split: option.splits if_splits)

lemma extract_ip_nonempty: "extract_ip line = Some i \<Longrightarrow> i \<noteq> []"
  unfolding extract_ip_def by (auto dest!: re_search_Some ip_at_nonempty)

lemma word_after_nonempty: "word_after lit s = Some (w, r) \<Longrightarrow> w \<noteq> []"
  by (auto simp: word_after_def Let_def split: if_splits)

lemma user_plain_nonempty: "user_plain lit s = Some u \<Longrightarrow> u \<noteq> []"
  by (auto simp: user_plain_def dest: word_after_nonempty)

lemma user_from_nonempty: "user_from lit s = Some u \<Longrightarrow> u \<noteq> []"
  by (auto simp: user_from_def split: option.splits if_splits dest: word_after_nonempty)

lemma first_match_nonempty:
  assumes "first_match pats line = Some u"
    and "\<forall>p\<in>set pats. \<forall>s v. p s = Some v \<longrightarrow> v \<noteq> []"
  shows "u \<noteq> []"
  using assms
proof (induction pats)
  case Nil
  then show ?case by simp
next
  case (Cons p ps)
  show ?case
  proof (cases "re_search p line")
    case None
    with Cons show ?thesis by simp
  next
    case (Some v)
    with Cons.prems(1) have "v = u" by simp
    with Some re_search_Some [of p line u] Cons.prems(2) show ?thesis by auto
  qed
qed

lemma extract_username_nonempty: "extract_username line = Some u \<Longrightarrow> u \<noteq> []"
  unfolding extract_username_def
  by (erule first_match_nonempty)
     (auto simp: username_patterns_def dest: user_plain_nonempty user_from_nonempty)

lemma filled_extract_username [simp]: "filled (extract_username line) = (extract_username line \<noteq> None)"
  by (auto simp: filled_def dest: extract_username_nonempty split: option.splits)

lemma filled_extract_ip [simp]: "filled (extract_ip line) = (extract_ip line \<noteq> None)"
  by (auto simp: filled_def dest: extract_ip_nonempty split: option.splits)

lemma ssh_event_type_cases:
  "ssh_event_type line = Some k \<Longrightarrow> k = ''failed_login'' \<or> k = ''successful_login'' \<or> k = ''logout''"
  by (auto simp: ssh_event_type_def Let_def split: if_splits)


text \<open>The effect of one sshd line, field by field.\<close>

lemma ssh_line_seen: "l \<in> seen_raw st \<Longrightarrow> ssh_line st l = st"
  by (simp add: ssh_line_def)

lemma ssh_line_seen_raw: "seen_raw (ssh_line st l) = insert l (seen_raw st)"
  by (auto simp: ssh_line_def Let_def split: option.splits)

lemma ssh_line_seen_sessions: "seen_sessions (ssh_line st l) = seen_sessions st"
  by (auto simp: ssh_line_def Let_def split: option.splits)

lemma ssh_line_irrelevant:
  assumes "l \<notin> seen_raw st" and "ssh_event_type l = None"
  shows "w_events (ssh_line st l) = w_events st"
    and "last_auth_username (ssh_line st l) = last_auth_username st"
    and "last_auth_ip (ssh_line st l) = last_auth_ip st"
    and "saw_sshd_logout (ssh_line st l) = saw_sshd_logout st"
  using assms by (simp_all add: ssh_line_def)

lemma ssh_line_login:
  assumes "l \<notin> seen_raw st" and "ssh_event_type l = Some k"
    and "k = ''successful_login'' \<or> k = ''failed_login''"
  shows "w_events (ssh_line st l) = w_events st @
           [\<lparr>a_type = k, a_username = extract_username l, a_src_ip = extract_ip l, a_raw = l\<rparr>]"
    and "last_auth_username (ssh_line st l)
         = (case extract_username l of None \<Rightarrow> last_auth_username st | Some u \<Rightarrow> Some u)"
    and "last_auth_ip (ssh_line st l)
         = (case extract_ip l of None \<Rightarrow> last_auth_ip st | Some i \<Rightarrow> Some i)"
    and "saw_sshd_logout (ssh_line st l) = saw_sshd_logout st"
  using assms by (auto simp: ssh_line_def Let_def split: option.splits)

lemma ssh_line_logout:
  assumes "l \<notin> seen_raw st" and "ssh_event_type l = Some ''logout''"
  shows "last_auth_username st \<noteq> Some [] \<Longrightarrow> last_auth_ip st \<noteq> Some [] \<Longrightarrow>
         w_events (ssh_line st l) = w_events st @
           [\<lparr>a_type = ''logout'',
             a_username = (case extract_username l of None \<Rightarrow> last_auth_username st | Some u \<Rightarrow> Some u),
             a_src_ip = (case extract_ip l of None \<Rightarrow> last_auth_ip st | Some i \<Rightarrow> Some i),
             a_raw = l\<rparr>]"
    and "last_auth_username (ssh_line st l) = last_auth_username st"
    and "last_auth_ip (ssh_line st l) = last_auth_ip st"
    and "saw_sshd_logout (ssh_line st l)"
  using assms
  by (auto simp: ssh_line_def Let_def filled_def split: option.splits
        dest: extract_username_nonempty extract_ip_nonempty)

text \<open>The sshd pass from any state against the rules.\<close>

lemma ssh_pass_correlate_gen:
  assumes "last_auth_username st \<noteq> Some []" and "last_auth_ip st \<noteq> Some []"
  shows "case correlate (last_auth_username st, last_auth_ip st)
                (List.map_filter classify (first_seen (seen_raw st) ls)) of
           (es, (lu, li)) \<Rightarrow>
             w_events (foldl ssh_line st ls) = w_events st @ es
           \<and> last_auth_username (foldl ssh_line st ls) = lu
           \<and> last_auth_ip (foldl ssh_line st ls) = li"
  using assms
proof (induction ls arbitrary: st)
  case Nil
  then show ?case by (simp add: List.map_filter_simps)
next
  case (Cons l ls)
  show ?case
  proof (cases "l \<in> seen_raw st")
    case True
    with Cons show ?thesis by (simp add: ssh_line_seen)
  next
    case False
    note fresh = this
    let ?st' = "ssh_line st l"
    have seen: "seen_raw ?st' = insert l (seen_raw st)" by (rule ssh_line_seen_raw)
    show ?thesis
    proof (cases "ssh_event_type l")
      case None
      from Cons.prems have ok: "last_auth_username ?st' \<noteq> Some []" "last_auth_ip ?st' \<noteq> Some []"
        by (simp_all add: ssh_line_irrelevant [OF fresh None])
      from Cons.IH [OF ok] show ?thesis
        by (simp add: fresh seen None List.map_filter_simps classify_def ssh_line_irrelevant [OF fresh None])
    next
      case (Some k)
      show ?thesis
      proof (cases "k = ''logout''")
        case True
        with Some have lo: "ssh_event_type l = Some ''logout''" by simp
        from Cons.prems have ok: "last_auth_username ?st' \<noteq> Some []" "last_auth_ip ?st' \<noteq> Some []"
          by (simp_all add: ssh_line_logout [OF fresh lo])
        from Cons.IH [OF ok] Cons.prems show ?thesis
          by (simp add: fresh seen lo List.map_filter_simps classify_def ssh_line_logout [OF fresh lo]
                split: prod.splits)
      next
        case False
        with ssh_event_type_cases [OF Some]
        have k: "k = ''successful_login'' \<or> k = ''failed_login''" by blast
        from Cons.prems have ok: "last_auth_username ?st' \<noteq> Some []" "last_auth_ip ?st' \<noteq> Some []"
          by (auto simp: ssh_line_login [OF fresh Some k] split: option.splits
                dest: extract_username_nonempty extract_ip_nonempty)
        from Cons.IH [OF ok] k show ?thesis
          by (auto simp: fresh seen Some List.map_filter_simps classify_def ssh_line_login [OF fresh Some k]
                split: prod.splits)
      qed
    qed
  qed
qed


text \<open>The logind pass reads the identity memory and never writes it.\<close>

lemma logind_line_memory:
  "last_auth_username (logind_line st l) = last_auth_username st"
  "last_auth_ip (logind_line st l) = last_auth_ip st"
  by (auto simp: logind_line_def Let_def split: option.splits)

lemma logind_pass_memory:
  "last_auth_username (foldl logind_line st ls) = last_auth_username st
   \<and> last_auth_ip (foldl logind_line st ls) = last_auth_ip st"
  by (induction ls arbitrary: st) (simp_all add: logind_line_memory)

text \<open>The rules never clear a part of the memory.\<close>

lemma correlate_keeps:
  "case correlate (lu, li) rs of (es, (lu', li')) \<Rightarrow> (lu \<noteq> None \<longrightarrow> lu' \<noteq> None) \<and> (li \<noteq> None \<longrightarrow> li' \<noteq> None)"
proof (induction rs arbitrary: lu li)
  case Nil
  then show ?case by simp
next
  case (Cons r rs)
  show ?case
  proof (cases "c_kind r = ''successful_login'' \<or> c_kind r = ''failed_login''")
    case True
    let ?lu = "case c_user r of None \<Rightarrow> lu | Some u \<Rightarrow> Some u"
    let ?li = "case c_ip r of None \<Rightarrow> li | Some i \<Rightarrow> Some i"
    from Cons.IH [of ?lu ?li] True show ?thesis
      by (auto split: prod.splits option.splits)
  next
    case False
    from Cons.IH [of lu li] False show ?thesis
      by (auto split: prod.splits)
  qed
qed

lemma ssh_pass_correlate:
  assumes "last_username \<noteq> Some []" and "last_ip \<noteq> Some []"
  shows "case correlate (last_username, last_ip) (List.map_filter classify (first_seen {} ssh_lines)) of
           (es, (lu, li)) \<Rightarrow>
             w_events (ssh_pass last_username last_ip ssh_lines) = es
           \<and> last_auth_username (ssh_pass last_username last_ip ssh_lines) = lu
           \<and> last_auth_ip (ssh_pass last_username last_ip ssh_lines) = li"
  using ssh_pass_correlate_gen [of "start_window last_username last_ip" ssh_lines] assms
  by (simp add: ssh_pass_def start_window_def)

text \<open>
  C4. For every window of sshd lines, with a memory whose parts are absent or not empty
  (as they are at the start of the process and after every window): the events and the
  memory of the sshd pass are those of the identity memory rules applied to the classified
  records of the lines in order, each line counted once. That is, a successful_login or
  failed_login record overwrites the last username exactly when it carries a username and
  the last source IP exactly when it carries a source IP, each on its own, and a logout
  record is emitted with the last username or the last source IP in the place of the one
  it lacks. No window clears a part of the memory. A logout line without username and IP
  after a successful login of alice from 10.0.0.5 in the same window is emitted with
  username alice and source IP 10.0.0.5.
\<close>

theorem identity_memory_correlation:
  assumes "last_username \<noteq> Some []" and "last_ip \<noteq> Some []"
  shows "(case correlate (last_username, last_ip) (List.map_filter classify (first_seen {} ssh_lines)) of
            (es, (lu, li)) \<Rightarrow>
              w_events (ssh_pass last_username last_ip ssh_lines) = es
            \<and> last_auth_username (ssh_pass last_username last_ip ssh_lines) = lu
            \<and> last_auth_ip (ssh_pass last_username last_ip ssh_lines) = li)
       \<and> (last_username \<noteq> None \<longrightarrow>
            last_auth_username (parse_journalctl_events last_username last_ip ssh_out sshd_out logind_out) \<noteq> None)
       \<and> (last_ip \<noteq> None \<longrightarrow>
            last_auth_ip (parse_journalctl_events last_username last_ip ssh_out sshd_out logind_out) \<noteq> None)
       \<and> w_events (parse_journalctl_events None None
            (Some (''May 01 10:00:00 web01 sshd[811]: Accepted password for alice from 10.0.0.5 port 50022 ssh2''
                   @ [CHR 0x0A] @ ''May 01 10:05:00 web01 sshd[811]: session closed''))
            None None)
          = [\<lparr>a_type = ''successful_login'', a_username = Some ''alice'', a_src_ip = Some ''10.0.0.5'',
               a_raw = ''May 01 10:00:00 web01 sshd[811]: Accepted password for alice from 10.0.0.5 port 50022 ssh2''\<rparr>,
             \<lparr>a_type = ''logout'', a_username = Some ''alice'', a_src_ip = Some ''10.0.0.5'',
               a_raw = ''May 01 10:05:00 web01 sshd[811]: session closed''\<rparr>]"
proof -
  let ?lines = "journal_lines ssh_out @ journal_lines sshd_out"
  have mem: "last_auth_username (parse_journalctl_events last_username last_ip ssh_out sshd_out logind_out)
               = last_auth_username (ssh_pass last_username last_ip ?lines)
           \<and> last_auth_ip (parse_journalctl_events last_username last_ip ssh_out sshd_out logind_out)
               = last_auth_ip (ssh_pass last_username last_ip ?lines)"
    by (simp add: parse_journalctl_events_def Let_def logind_pass_memory)
  have keep: "(last_username \<noteq> None \<longrightarrow> last_auth_username (ssh_pass last_username last_ip ?lines) \<noteq> None)
            \<and> (last_ip \<noteq> None \<longrightarrow> last_auth_ip (ssh_pass last_username last_ip ?lines) \<noteq> None)"
    using ssh_pass_correlate [OF assms, of ?lines]
      correlate_keeps [of last_username last_ip "List.map_filter classify (first_seen {} ?lines)"]
    by (auto split: prod.splits)
  have ex: "w_events (parse_journalctl_events None None
            (Some (''May 01 10:00:00 web01 sshd[811]: Accepted password for alice from 10.0.0.5 port 50022 ssh2''
                   @ [CHR 0x0A] @ ''May 01 10:05:00 web01 sshd[811]: session closed''))
            None None)
          = [\<lparr>a_type = ''successful_login'', a_username = Some ''alice'', a_src_ip = Some ''10.0.0.5'',
               a_raw = ''May 01 10:00:00 web01 sshd[811]: Accepted password for alice from 10.0.0.5 port 50022 ssh2''\<rparr>,
             \<lparr>a_type = ''logout'', a_username = Some ''alice'', a_src_ip = Some ''10.0.0.5'',
               a_raw = ''May 01 10:05:00 web01 sshd[811]: session closed''\<rparr>]"
    by code_simp
  from ssh_pass_correlate [OF assms, of ssh_lines] mem keep ex show ?thesis
    by simp
qed


theorem identity_memory_correlation_witness:
  "Some ''alice'' \<noteq> Some [] \<and> None \<noteq> Some ([] :: string)
   \<and> w_events (ssh_pass (Some ''alice'') None
        [''sshd[902]: Accepted publickey for dave from 198.51.100.4 port 40022 ssh2'',
         ''sshd[902]: pam_unix(sshd:session): session closed for user dave''])
     = [\<lparr>a_type = ''successful_login'', a_username = None, a_src_ip = Some ''198.51.100.4'',
          a_raw = ''sshd[902]: Accepted publickey for dave from 198.51.100.4 port 40022 ssh2''\<rparr>,
        \<lparr>a_type = ''logout'', a_username = Some ''dave'', a_src_ip = Some ''198.51.100.4'',
          a_raw = ''sshd[902]: pam_unix(sshd:session): session closed for user dave''\<rparr>]
   \<and> last_auth_username (ssh_pass (Some ''alice'') None
        [''sshd[902]: Accepted publickey for dave from 198.51.100.4 port 40022 ssh2'',
         ''sshd[902]: pam_unix(sshd:session): session closed for user dave'']) = Some ''alice''
   \<and> last_auth_ip (ssh_pass (Some ''alice'') None
        [''sshd[902]: Accepted publickey for dave from 198.51.100.4 port 40022 ssh2'',
         ''sshd[902]: pam_unix(sshd:session): session closed for user dave'']) = Some ''198.51.100.4''"
proof -
  let ?ls = "[''sshd[902]: Accepted publickey for dave from 198.51.100.4 port 40022 ssh2'',
              ''sshd[902]: pam_unix(sshd:session): session closed for user dave'']"
  have h1: "Some ''alice'' \<noteq> Some []" by simp
  have h2: "None \<noteq> Some ([] :: string)" by simp
  have c: "correlate (Some ''alice'', None) (List.map_filter classify (first_seen {} ?ls))
           = ([\<lparr>a_type = ''successful_login'', a_username = None, a_src_ip = Some ''198.51.100.4'',
                 a_raw = ''sshd[902]: Accepted publickey for dave from 198.51.100.4 port 40022 ssh2''\<rparr>,
               \<lparr>a_type = ''logout'', a_username = Some ''dave'', a_src_ip = Some ''198.51.100.4'',
                 a_raw = ''sshd[902]: pam_unix(sshd:session): session closed for user dave''\<rparr>],
              (Some ''alice'', Some ''198.51.100.4''))"
    by code_simp
  from identity_memory_correlation [OF h1 h2, of ?ls None None None] c show ?thesis
    by simp
qed

text \<open>The flag of the sshd pass is set exactly when the pass emitted a logout event.\<close>

lemma ssh_line_flag:
  assumes "saw_sshd_logout st = (\<exists>e\<in>set (w_events st). a_type e = ''logout'')"
  shows "saw_sshd_logout (ssh_line st l) = (\<exists>e\<in>set (w_events (ssh_line st l)). a_type e = ''logout'')"
proof (cases "l \<in> seen_raw st")
  case True
  with assms show ?thesis by (simp add: ssh_line_seen)
next
  case False
  show ?thesis
  proof (cases "ssh_event_type l")
    case None
    with False assms show ?thesis by (simp add: ssh_line_def)
  next
    case (Some k)
    with False assms show ?thesis
      by (auto simp: ssh_line_def Let_def)
  qed
qed

lemma ssh_pass_flag_gen:
  assumes "saw_sshd_logout st = (\<exists>e\<in>set (w_events st). a_type e = ''logout'')"
  shows "saw_sshd_logout (foldl ssh_line st ls)
         = (\<exists>e\<in>set (w_events (foldl ssh_line st ls)). a_type e = ''logout'')"
  using assms by (induction ls arbitrary: st) (simp_all add: ssh_line_flag)

lemma ssh_pass_flag:
  "saw_sshd_logout (ssh_pass lu li ls) = (\<exists>e\<in>set (w_events (ssh_pass lu li ls)). a_type e = ''logout'')"
  unfolding ssh_pass_def by (rule ssh_pass_flag_gen) (simp add: start_window_def)

text \<open>
  C5. For every collection window in which the sshd pass emitted at least one logout
  event, the events of the window are exactly those of the sshd pass: no line of the
  session manager (logind) source yields an event.
\<close>

theorem sshd_logout_suppresses_logind:
  assumes "\<exists>e\<in>set (w_events (ssh_pass last_username last_ip
                       (journal_lines ssh_out @ journal_lines sshd_out))). a_type e = ''logout''"
  shows "w_events (parse_journalctl_events last_username last_ip ssh_out sshd_out logind_out)
         = w_events (ssh_pass last_username last_ip (journal_lines ssh_out @ journal_lines sshd_out))"
  using assms by (auto simp: parse_journalctl_events_def Let_def ssh_pass_flag)

theorem sshd_logout_suppresses_logind_witness:
  "(\<exists>e\<in>set (w_events (ssh_pass None None
        (journal_lines (Some (''sshd[811]: Accepted password for alice from 10.0.0.5 port 50022 ssh2''
                              @ [CHR 0x0A] @ ''sshd[811]: Disconnected from 10.0.0.5 port 50022''))
         @ journal_lines None))). a_type e = ''logout'')
   \<and> w_events (parse_journalctl_events None None
        (Some (''sshd[811]: Accepted password for alice from 10.0.0.5 port 50022 ssh2''
               @ [CHR 0x0A] @ ''sshd[811]: Disconnected from 10.0.0.5 port 50022''))
        None
        (Some (''Session 42 logged out'' @ [CHR 0x0A] @ ''Removed session 42.'')))
     = [\<lparr>a_type = ''successful_login'', a_username = Some ''alice'', a_src_ip = Some ''10.0.0.5'',
          a_raw = ''sshd[811]: Accepted password for alice from 10.0.0.5 port 50022 ssh2''\<rparr>,
        \<lparr>a_type = ''logout'', a_username = Some ''alice'', a_src_ip = Some ''10.0.0.5'',
          a_raw = ''sshd[811]: Disconnected from 10.0.0.5 port 50022''\<rparr>]"
proof -
  let ?ssh = "Some (''sshd[811]: Accepted password for alice from 10.0.0.5 port 50022 ssh2''
                    @ [CHR 0x0A] @ ''sshd[811]: Disconnected from 10.0.0.5 port 50022'')"
  have ev: "w_events (ssh_pass None None (journal_lines ?ssh @ journal_lines None))
     = [\<lparr>a_type = ''successful_login'', a_username = Some ''alice'', a_src_ip = Some ''10.0.0.5'',
          a_raw = ''sshd[811]: Accepted password for alice from 10.0.0.5 port 50022 ssh2''\<rparr>,
        \<lparr>a_type = ''logout'', a_username = Some ''alice'', a_src_ip = Some ''10.0.0.5'',
          a_raw = ''sshd[811]: Disconnected from 10.0.0.5 port 50022''\<rparr>]"
    by code_simp
  have h: "\<exists>e\<in>set (w_events (ssh_pass None None (journal_lines ?ssh @ journal_lines None))).
             a_type e = ''logout''"
    unfolding ev by simp
  from sshd_logout_suppresses_logind [OF h] h ev show ?thesis by simp
qed


text \<open>The logind pass.\<close>

lemma session_search_nonempty: "session_search a s = Some d \<Longrightarrow> d \<noteq> []"
  by (induction a s rule: session_search.induct)
     (auto simp: session_at_def Let_def split: if_splits option.splits)

lemma session_id_nonempty: "session_id l = Some sid \<Longrightarrow> sid \<noteq> []"
  unfolding session_id_def by (rule session_search_nonempty)

lemma logind_line_seen: "l \<in> seen_raw st \<Longrightarrow> logind_line st l = st"
  by (simp add: logind_line_def)

lemma logind_line_seen_raw: "seen_raw (logind_line st l) = insert l (seen_raw st)"
  by (auto simp: logind_line_def Let_def split: option.splits)

lemma logind_line_other:
  assumes "l \<notin> seen_raw st" and "\<not> logind_logout_line l"
  shows "w_events (logind_line st l) = w_events st"
    and "seen_sessions (logind_line st l) = seen_sessions st"
  using assms by (simp_all add: logind_line_def)

lemma logind_line_no_session:
  assumes "l \<notin> seen_raw st" and "logind_logout_line l" and "session_id l = None"
  shows "w_events (logind_line st l) = w_events st @
           [\<lparr>a_type = ''logout'', a_username = last_auth_username st,
             a_src_ip = last_auth_ip st, a_raw = l\<rparr>]"
    and "seen_sessions (logind_line st l) = seen_sessions st"
  using assms by (simp_all add: logind_line_def)

lemma logind_line_known_session:
  assumes "l \<notin> seen_raw st" and "logind_logout_line l" and "session_id l = Some sid"
    and "sid \<in> seen_sessions st"
  shows "w_events (logind_line st l) = w_events st"
    and "seen_sessions (logind_line st l) = seen_sessions st"
  using assms session_id_nonempty [OF assms(3)] by (simp_all add: logind_line_def)

lemma logind_line_new_session:
  assumes "l \<notin> seen_raw st" and "logind_logout_line l" and "session_id l = Some sid"
    and "sid \<notin> seen_sessions st"
  shows "w_events (logind_line st l) = w_events st @
           [\<lparr>a_type = ''logout'', a_username = last_auth_username st,
             a_src_ip = last_auth_ip st, a_raw = l\<rparr>]"
    and "seen_sessions (logind_line st l) = insert sid (seen_sessions st)"
  using assms session_id_nonempty [OF assms(3)] by (simp_all add: logind_line_def)

lemma logind_pass_gen:
  assumes "seen_sessions st = {sid. Some sid \<in> set (map session_id earlier)}"
  shows "w_events (foldl logind_line st ls)
         = w_events st @
           map (\<lambda>l. \<lparr>a_type = ''logout'', a_username = last_auth_username st,
                      a_src_ip = last_auth_ip st, a_raw = l\<rparr>)
             (first_per_session earlier
                (filter logind_logout_line (first_seen (seen_raw st) ls)))"
  using assms
proof (induction ls arbitrary: st earlier)
  case Nil
  then show ?case by simp
next
  case (Cons l ls)
  let ?st' = "logind_line st l"
  have mem: "last_auth_username ?st' = last_auth_username st" "last_auth_ip ?st' = last_auth_ip st"
    by (rule logind_line_memory)+
  have seen: "seen_raw ?st' = insert l (seen_raw st)" by (rule logind_line_seen_raw)
  show ?case
  proof (cases "l \<in> seen_raw st")
    case True
    with Cons.IH [OF Cons.prems] show ?thesis by (simp add: logind_line_seen)
  next
    case False
    note fresh = this
    show ?thesis
    proof (cases "logind_logout_line l")
      case False
      have "seen_sessions ?st' = {sid. Some sid \<in> set (map session_id earlier)}"
        using Cons.prems by (simp add: logind_line_other [OF fresh False])
      from Cons.IH [OF this] show ?thesis
        by (simp add: fresh False seen mem logind_line_other [OF fresh False])
    next
      case True
      note shaped = this
      show ?thesis
      proof (cases "session_id l")
        case None
        have "seen_sessions ?st' = {sid. Some sid \<in> set (map session_id (earlier @ [l]))}"
          using Cons.prems None by (auto simp: logind_line_no_session [OF fresh shaped None])
        from Cons.IH [OF this] show ?thesis
          by (simp add: fresh shaped seen mem None logind_line_no_session [OF fresh shaped None])
      next
        case (Some sid)
        show ?thesis
        proof (cases "sid \<in> seen_sessions st")
          case True
          have inv: "seen_sessions ?st' = {sid. Some sid \<in> set (map session_id (earlier @ [l]))}"
            using Cons.prems Some True
            by (auto simp: logind_line_known_session [OF fresh shaped Some True])
          from True Cons.prems Some have dup: "session_id l \<in> set (map session_id earlier)"
            by auto
          from Cons.IH [OF inv] show ?thesis
            using dup
            by (simp add: fresh shaped seen mem Some logind_line_known_session [OF fresh shaped Some True])
        next
          case False
          have inv: "seen_sessions ?st' = {sid. Some sid \<in> set (map session_id (earlier @ [l]))}"
            using Cons.prems Some False
            by (auto simp: logind_line_new_session [OF fresh shaped Some False])
          from False Cons.prems Some have new: "session_id l \<notin> set (map session_id earlier)"
            by auto
          from Cons.IH [OF inv] show ?thesis
            using new
            by (simp add: fresh shaped seen mem Some logind_line_new_session [OF fresh shaped Some False])
        qed
      qed
    qed
  qed
qed

lemma ssh_pass_seen_sessions: "seen_sessions (foldl ssh_line st ls) = seen_sessions st"
  by (induction ls arbitrary: st) (simp_all add: ssh_line_seen_sessions)

text \<open>
  C6. For every collection window in which the sshd pass emitted no logout event, the
  events of the window are those of the sshd pass followed by one logout event, with the
  username and source IP of the memory, for each logout line of the logind source that
  is kept; the logout lines are the lines of logout shape that reach the session rule
  (a line seen verbatim earlier in the window never does), and among those that embed
  the same session identifier (the first \<^verbatim>\<open>session <digits>\<close> token of the line) only the
  first is kept and every later one is dropped. The two lines
  \<^verbatim>\<open>Session 42 logged out\<close> and \<^verbatim>\<open>Removed session 42.\<close> of one window give exactly one
  logout event.
\<close>

theorem logind_first_logout_per_session:
  "(st = ssh_pass last_username last_ip (journal_lines ssh_out @ journal_lines sshd_out)
    \<and> \<not> (\<exists>e\<in>set (w_events st). a_type e = ''logout'') \<longrightarrow>
      w_events (parse_journalctl_events last_username last_ip ssh_out sshd_out logind_out)
      = w_events st @
        map (\<lambda>l. \<lparr>a_type = ''logout'', a_username = last_auth_username st,
                   a_src_ip = last_auth_ip st, a_raw = l\<rparr>)
          (first_per_session []
             (filter logind_logout_line (first_seen (seen_raw st) (journal_lines logind_out)))))
   \<and> w_events (parse_journalctl_events None None None None
        (Some (''Session 42 logged out'' @ [CHR 0x0A] @ ''Removed session 42.'')))
     = [\<lparr>a_type = ''logout'', a_username = None, a_src_ip = None, a_raw = ''Session 42 logged out''\<rparr>]"
proof (intro conjI impI)
  assume a: "st = ssh_pass last_username last_ip (journal_lines ssh_out @ journal_lines sshd_out)
    \<and> \<not> (\<exists>e\<in>set (w_events st). a_type e = ''logout'')"
  then have flag: "\<not> saw_sshd_logout st" by (simp add: ssh_pass_flag)
  from a have "seen_sessions st = {}"
    by (simp add: ssh_pass_def ssh_pass_seen_sessions start_window_def)
  then have "seen_sessions st = {sid. Some sid \<in> set (map session_id [])}" by simp
  from logind_pass_gen [OF this, of "journal_lines logind_out"] a flag
  show "w_events (parse_journalctl_events last_username last_ip ssh_out sshd_out logind_out)
      = w_events st @
        map (\<lambda>l. \<lparr>a_type = ''logout'', a_username = last_auth_username st,
                   a_src_ip = last_auth_ip st, a_raw = l\<rparr>)
          (first_per_session []
             (filter logind_logout_line (first_seen (seen_raw st) (journal_lines logind_out))))"
    by (simp add: parse_journalctl_events_def Let_def)
next
  show "w_events (parse_journalctl_events None None None None
        (Some (''Session 42 logged out'' @ [CHR 0x0A] @ ''Removed session 42.'')))
     = [\<lparr>a_type = ''logout'', a_username = None, a_src_ip = None, a_raw = ''Session 42 logged out''\<rparr>]"
    by code_simp
qed

theorem logind_first_logout_per_session_witness:
  "\<not> (\<exists>e\<in>set (w_events (ssh_pass None None
           (journal_lines (Some ''sshd[811]: Accepted password for alice from 10.0.0.5 port 50022 ssh2'')
            @ journal_lines None))). a_type e = ''logout'')
   \<and> w_events (parse_journalctl_events None None
        (Some ''sshd[811]: Accepted password for alice from 10.0.0.5 port 50022 ssh2'') None
        (Some (''New session 42 of user alice.'' @ [CHR 0x0A]
               @ ''Session 42 logged out. Waiting for processes to exit.'' @ [CHR 0x0A]
               @ ''Removed session 42.'' @ [CHR 0x0A]
               @ ''Session 43 logged out. Waiting for processes to exit.'')))
     = [\<lparr>a_type = ''successful_login'', a_username = Some ''alice'', a_src_ip = Some ''10.0.0.5'',
          a_raw = ''sshd[811]: Accepted password for alice from 10.0.0.5 port 50022 ssh2''\<rparr>,
        \<lparr>a_type = ''logout'', a_username = Some ''alice'', a_src_ip = Some ''10.0.0.5'',
          a_raw = ''Session 42 logged out. Waiting for processes to exit.''\<rparr>,
        \<lparr>a_type = ''logout'', a_username = Some ''alice'', a_src_ip = Some ''10.0.0.5'',
          a_raw = ''Session 43 logged out. Waiting for processes to exit.''\<rparr>]"
proof -
  let ?ssh = "Some ''sshd[811]: Accepted password for alice from 10.0.0.5 port 50022 ssh2''"
  let ?logind = "Some (''New session 42 of user alice.'' @ [CHR 0x0A]
               @ ''Session 42 logged out. Waiting for processes to exit.'' @ [CHR 0x0A]
               @ ''Removed session 42.'' @ [CHR 0x0A]
               @ ''Session 43 logged out. Waiting for processes to exit.'')"
  let ?st = "ssh_pass None None (journal_lines ?ssh @ journal_lines None)"
  have ev: "w_events ?st
     = [\<lparr>a_type = ''successful_login'', a_username = Some ''alice'', a_src_ip = Some ''10.0.0.5'',
          a_raw = ''sshd[811]: Accepted password for alice from 10.0.0.5 port 50022 ssh2''\<rparr>]"
    by code_simp
  have h: "\<not> (\<exists>e\<in>set (w_events ?st). a_type e = ''logout'')"
    unfolding ev by simp
  have r: "w_events ?st @
        map (\<lambda>l. \<lparr>a_type = ''logout'', a_username = last_auth_username ?st,
                   a_src_ip = last_auth_ip ?st, a_raw = l\<rparr>)
          (first_per_session []
             (filter logind_logout_line (first_seen (seen_raw ?st) (journal_lines ?logind))))
     = [\<lparr>a_type = ''successful_login'', a_username = Some ''alice'', a_src_ip = Some ''10.0.0.5'',
          a_raw = ''sshd[811]: Accepted password for alice from 10.0.0.5 port 50022 ssh2''\<rparr>,
        \<lparr>a_type = ''logout'', a_username = Some ''alice'', a_src_ip = Some ''10.0.0.5'',
          a_raw = ''Session 42 logged out. Waiting for processes to exit.''\<rparr>,
        \<lparr>a_type = ''logout'', a_username = Some ''alice'', a_src_ip = Some ''10.0.0.5'',
          a_raw = ''Session 43 logged out. Waiting for processes to exit.''\<rparr>]"
    by code_simp
  from logind_first_logout_per_session [of ?st None None ?ssh None ?logind] h
  have "w_events (parse_journalctl_events None None ?ssh None ?logind)
      = w_events ?st @
        map (\<lambda>l. \<lparr>a_type = ''logout'', a_username = last_auth_username ?st,
                   a_src_ip = last_auth_ip ?st, a_raw = l\<rparr>)
          (first_per_session []
             (filter logind_logout_line (first_seen (seen_raw ?st) (journal_lines ?logind))))"
    by blast
  with r h show ?thesis by simp
qed

text \<open>
  The kind of a line, by the markers of the specification.
\<close>

lemma kinds_of_line_append [simp]:
  "kinds_of_line line (xs @ ys) = kinds_of_line line xs @ kinds_of_line line ys"
  by (simp add: kinds_of_line_def)

lemma ssh_event_type_markers:
  "ssh_event_type line =
     (if failed_marker line then Some ''failed_login''
      else if accepted_marker line then Some ''successful_login''
      else if termination_marker line then Some ''logout''
      else None)"
  by (simp add: ssh_event_type_def failed_marker_def accepted_marker_def termination_marker_def Let_def)

text \<open>
  The kinds that the sshd pass emits for one raw line: one event, of the kind of the line,
  at the first occurrence of a line that has a kind, and nothing else.
\<close>

lemma ssh_line_emits:
  assumes "l \<notin> seen_raw st" and "ssh_event_type l = Some k"
  shows "\<exists>u i. w_events (ssh_line st l)
                = w_events st @ [\<lparr>a_type = k, a_username = u, a_src_ip = i, a_raw = l\<rparr>]"
  using assms by (simp add: ssh_line_def Let_def)

lemma ssh_line_kinds:
  "kinds_of_line line (w_events (ssh_line st l))
   = kinds_of_line line (w_events st)
     @ (if l = line \<and> l \<notin> seen_raw st
        then (case ssh_event_type l of None \<Rightarrow> [] | Some k \<Rightarrow> [k]) else [])"
proof (cases "l \<in> seen_raw st")
  case True
  then show ?thesis by (simp add: ssh_line_seen)
next
  case False
  show ?thesis
  proof (cases "ssh_event_type l")
    case None
    with False show ?thesis by (auto simp: ssh_line_irrelevant(1))
  next
    case (Some k)
    from ssh_line_emits [OF False Some] obtain u i where
      "w_events (ssh_line st l)
       = w_events st @ [\<lparr>a_type = k, a_username = u, a_src_ip = i, a_raw = l\<rparr>]"
      by blast
    with False Some show ?thesis by (auto simp: kinds_of_line_def)
  qed
qed

lemma ssh_pass_kinds_gen:
  "kinds_of_line line (w_events (foldl ssh_line st ls))
   = kinds_of_line line (w_events st)
     @ (if line \<in> set ls \<and> line \<notin> seen_raw st
        then (case ssh_event_type line of None \<Rightarrow> [] | Some k \<Rightarrow> [k]) else [])"
proof (induction ls arbitrary: st)
  case Nil
  then show ?case by simp
next
  case (Cons l ls)
  show ?case
    by (auto simp: Cons.IH [of "ssh_line st l"] ssh_line_kinds ssh_line_seen_raw)
qed

lemma ssh_pass_kinds:
  "kinds_of_line line (w_events (ssh_pass lu li ls))
   = (if line \<in> set ls then (case ssh_event_type line of None \<Rightarrow> [] | Some k \<Rightarrow> [k]) else [])"
  using ssh_pass_kinds_gen [of line "start_window lu li" ls]
  by (simp add: ssh_pass_def start_window_def kinds_of_line_def)

lemma ssh_pass_seen_raw_gen: "seen_raw (foldl ssh_line st ls) = seen_raw st \<union> set ls"
  by (induction ls arbitrary: st) (auto simp: ssh_line_seen_raw)

lemma ssh_pass_seen_raw: "seen_raw (ssh_pass lu li ls) = set ls"
  by (simp add: ssh_pass_def ssh_pass_seen_raw_gen start_window_def)

text \<open>
  What the logind pass adds to the events: logouts only, each from a line of logout
  shape that the sshd pass has not read.
\<close>

lemma logind_line_rest:
  "\<exists>rest. w_events (logind_line st l) = w_events st @ rest
     \<and> (\<forall>e\<in>set rest. a_type e = ''logout'' \<and> logind_logout_line (a_raw e)
           \<and> a_raw e = l \<and> l \<notin> seen_raw st)"
  by (auto simp: logind_line_def Let_def split: option.splits)

lemma logind_pass_rest:
  "\<exists>rest. w_events (foldl logind_line st ls) = w_events st @ rest
     \<and> (\<forall>e\<in>set rest. a_type e = ''logout'' \<and> logind_logout_line (a_raw e)
           \<and> a_raw e \<in> set ls \<and> a_raw e \<notin> seen_raw st)"
proof (induction ls arbitrary: st)
  case Nil
  then show ?case by simp
next
  case (Cons l ls)
  from logind_line_rest [of st l] obtain r1 where
    r1: "w_events (logind_line st l) = w_events st @ r1"
      "\<forall>e\<in>set r1. a_type e = ''logout'' \<and> logind_logout_line (a_raw e) \<and> a_raw e = l \<and> l \<notin> seen_raw st"
    by blast
  from Cons.IH [of "logind_line st l"] obtain r2 where
    r2: "w_events (foldl logind_line (logind_line st l) ls) = w_events (logind_line st l) @ r2"
      "\<forall>e\<in>set r2. a_type e = ''logout'' \<and> logind_logout_line (a_raw e)
           \<and> a_raw e \<in> set ls \<and> a_raw e \<notin> seen_raw (logind_line st l)"
    by blast
  have "w_events (foldl logind_line st (l # ls)) = w_events st @ (r1 @ r2)"
    by (simp add: r1 r2)
  moreover have "\<forall>e\<in>set (r1 @ r2). a_type e = ''logout'' \<and> logind_logout_line (a_raw e)
           \<and> a_raw e \<in> set (l # ls) \<and> a_raw e \<notin> seen_raw st"
    using r1(2) r2(2) by (auto simp: logind_line_seen_raw)
  ultimately show ?case by blast
qed

lemma window_rest:
  assumes "ssh_lines = journal_lines ssh_out @ journal_lines sshd_out"
    and "w = parse_journalctl_events lu li ssh_out sshd_out logind_out"
  shows "\<exists>rest. w_events w = w_events (ssh_pass lu li ssh_lines) @ rest
     \<and> (\<forall>e\<in>set rest. a_type e = ''logout'' \<and> logind_logout_line (a_raw e)
           \<and> a_raw e \<in> set (journal_lines logind_out) \<and> a_raw e \<notin> set ssh_lines)"
proof (cases "saw_sshd_logout (ssh_pass lu li ssh_lines)")
  case True
  with assms have "w_events w = w_events (ssh_pass lu li ssh_lines) @ []"
    by (simp add: parse_journalctl_events_def Let_def)
  then show ?thesis by (intro exI [of _ "[]"]) simp
next
  case False
  with assms have "w = foldl logind_line (ssh_pass lu li ssh_lines) (journal_lines logind_out)"
    by (simp add: parse_journalctl_events_def Let_def)
  with logind_pass_rest [of "ssh_pass lu li ssh_lines" "journal_lines logind_out"]
  show ?thesis by (simp add: ssh_pass_seen_raw)
qed


text \<open>
  Against C7 as it is worded: the line \<^verbatim>\<open>Removed session 42.\<close> contains none of the eight kind
  markers and the classifier gives it no kind, yet as the only line of the unit
  \<^verbatim>\<open>systemd-logind\<close> it makes \<^verbatim>\<open>parse_journalctl_events\<close> return one event, a logout:
  the loop over the logind lines does not classify by the kind markers.
\<close>

theorem unmarked_logind_line_is_logout:
  "\<not> contains ''failed password'' (lower ''Removed session 42.'')
   \<and> \<not> contains ''invalid user'' (lower ''Removed session 42.'')
   \<and> \<not> contains ''accepted password'' (lower ''Removed session 42.'')
   \<and> \<not> contains ''accepted publickey'' (lower ''Removed session 42.'')
   \<and> \<not> contains ''session closed for user'' (lower ''Removed session 42.'')
   \<and> \<not> contains ''disconnected from'' (lower ''Removed session 42.'')
   \<and> \<not> contains ''received disconnect'' (lower ''Removed session 42.'')
   \<and> \<not> contains ''session closed'' (lower ''Removed session 42.'')
   \<and> ssh_event_type ''Removed session 42.'' = None
   \<and> w_events (parse_journalctl_events None None None None (Some ''Removed session 42.''))
       = [\<lparr>a_type = ''logout'', a_username = None, a_src_ip = None,
            a_raw = ''Removed session 42.''\<rparr>]"
  by code_simp

text \<open>
  C7, amended. In one collection window, for every line of the units \<^verbatim>\<open>ssh\<close> and
  \<^verbatim>\<open>sshd\<close> the events returned for that line follow the priority failed_login,
  successful_login, logout: a line with a failed-credential marker (\<^verbatim>\<open>failed password\<close>,
  \<^verbatim>\<open>invalid user\<close>) yields exactly one event, a failed_login, whatever else it contains;
  otherwise a line with an accepted-credential marker yields exactly one event, a
  successful_login; otherwise a line with a session-termination marker yields exactly
  one event, a logout; and a line with none of the markers yields no event. A line that
  is not among the sshd lines yields events only as a line of the unit
  \<^verbatim>\<open>systemd-logind\<close> of logout shape, and these are logouts, whatever markers it
  contains; so a line with none of the kind markers that is not of logout shape yields
  no event at all.
\<close>

theorem classification_priority:
  assumes "ssh_lines = journal_lines ssh_out @ journal_lines sshd_out"
    and "w = parse_journalctl_events last_username last_ip ssh_out sshd_out logind_out"
  shows "(line \<in> set ssh_lines \<and> failed_marker line \<longrightarrow>
            kinds_of_line line (w_events w) = [''failed_login''])
       \<and> (line \<in> set ssh_lines \<and> \<not> failed_marker line \<and> accepted_marker line \<longrightarrow>
            kinds_of_line line (w_events w) = [''successful_login''])
       \<and> (line \<in> set ssh_lines \<and> \<not> failed_marker line \<and> \<not> accepted_marker line
            \<and> termination_marker line \<longrightarrow>
            kinds_of_line line (w_events w) = [''logout''])
       \<and> (line \<in> set ssh_lines \<and> \<not> failed_marker line \<and> \<not> accepted_marker line
            \<and> \<not> termination_marker line \<longrightarrow>
            kinds_of_line line (w_events w) = [])
       \<and> (line \<notin> set ssh_lines \<longrightarrow>
            (\<forall>e\<in>set (w_events w). a_raw e = line \<longrightarrow>
               a_type e = ''logout'' \<and> logind_logout_line line
               \<and> line \<in> set (journal_lines logind_out)))
       \<and> (\<not> failed_marker line \<and> \<not> accepted_marker line \<and> \<not> termination_marker line
            \<and> \<not> logind_logout_line line \<longrightarrow>
            kinds_of_line line (w_events w) = [])"
proof -
  let ?st = "ssh_pass last_username last_ip ssh_lines"
  from window_rest [OF assms] obtain rest where
    w: "w_events w = w_events ?st @ rest"
    and rest: "\<forall>e\<in>set rest. a_type e = ''logout'' \<and> logind_logout_line (a_raw e)
           \<and> a_raw e \<in> set (journal_lines logind_out) \<and> a_raw e \<notin> set ssh_lines"
    by blast
  have inside: "line \<in> set ssh_lines \<Longrightarrow> kinds_of_line line rest = []"
    using rest by (auto simp: kinds_of_line_def filter_empty_conv)
  have unshaped: "\<not> logind_logout_line line \<Longrightarrow> kinds_of_line line rest = []"
    using rest by (auto simp: kinds_of_line_def filter_empty_conv)
  have outside: "line \<notin> set ssh_lines \<Longrightarrow> kinds_of_line line (w_events ?st) = []"
    by (simp add: ssh_pass_kinds)
  have k: "kinds_of_line line (w_events w) = kinds_of_line line (w_events ?st) @ kinds_of_line line rest"
    by (simp add: w)
  have five: "line \<notin> set ssh_lines \<Longrightarrow>
        \<forall>e\<in>set (w_events w). a_raw e = line \<longrightarrow>
               a_type e = ''logout'' \<and> logind_logout_line line
               \<and> line \<in> set (journal_lines logind_out)"
  proof (intro ballI impI)
    fix e assume out: "line \<notin> set ssh_lines" and e: "e \<in> set (w_events w)" and raw: "a_raw e = line"
    from outside [OF out] raw have "e \<notin> set (w_events ?st)"
      by (auto simp: kinds_of_line_def filter_empty_conv)
    with e w have "e \<in> set rest" by simp
    with rest raw show "a_type e = ''logout'' \<and> logind_logout_line line
               \<and> line \<in> set (journal_lines logind_out)" by auto
  qed
  show ?thesis
  proof (intro conjI impI)
    assume "line \<in> set ssh_lines \<and> failed_marker line"
    then show "kinds_of_line line (w_events w) = [''failed_login'']"
      by (simp add: k inside ssh_pass_kinds ssh_event_type_markers)
  next
    assume "line \<in> set ssh_lines \<and> \<not> failed_marker line \<and> accepted_marker line"
    then show "kinds_of_line line (w_events w) = [''successful_login'']"
      by (simp add: k inside ssh_pass_kinds ssh_event_type_markers)
  next
    assume "line \<in> set ssh_lines \<and> \<not> failed_marker line \<and> \<not> accepted_marker line
            \<and> termination_marker line"
    then show "kinds_of_line line (w_events w) = [''logout'']"
      by (simp add: k inside ssh_pass_kinds ssh_event_type_markers)
  next
    assume "line \<in> set ssh_lines \<and> \<not> failed_marker line \<and> \<not> accepted_marker line
            \<and> \<not> termination_marker line"
    then show "kinds_of_line line (w_events w) = []"
      by (simp add: k inside ssh_pass_kinds ssh_event_type_markers)
  next
    assume "line \<notin> set ssh_lines"
    then show "\<forall>e\<in>set (w_events w). a_raw e = line \<longrightarrow>
               a_type e = ''logout'' \<and> logind_logout_line line
               \<and> line \<in> set (journal_lines logind_out)"
      by (rule five)
  next
    assume "\<not> failed_marker line \<and> \<not> accepted_marker line \<and> \<not> termination_marker line
            \<and> \<not> logind_logout_line line"
    then show "kinds_of_line line (w_events w) = []"
      by (simp add: k unshaped ssh_pass_kinds ssh_event_type_markers)
  qed
qed


theorem classification_priority_witness:
  "failed_marker ''sshd[77]: Failed password for admin from 203.0.113.9 (accepted password, session closed)''
   \<and> accepted_marker ''sshd[77]: Failed password for admin from 203.0.113.9 (accepted password, session closed)''
   \<and> termination_marker ''sshd[77]: Failed password for admin from 203.0.113.9 (accepted password, session closed)''
   \<and> ''sshd[77]: Failed password for admin from 203.0.113.9 (accepted password, session closed)'' \<in> set (journal_lines (Some (''sshd[77]: Failed password for admin from 203.0.113.9 (accepted password, session closed)''
            @ [CHR 0x0A] @ ''sshd[77]: Server listening on 0.0.0.0 port 22.''))
          @ journal_lines None)
   \<and> kinds_of_line ''sshd[77]: Failed password for admin from 203.0.113.9 (accepted password, session closed)'' (w_events (parse_journalctl_events None None
        (Some (''sshd[77]: Failed password for admin from 203.0.113.9 (accepted password, session closed)''
            @ [CHR 0x0A] @ ''sshd[77]: Server listening on 0.0.0.0 port 22.''))
        None (Some (''New session 42 of user admin.'' @ [CHR 0x0A] @ ''Removed session 42.'')))) = [''failed_login'']
   \<and> \<not> failed_marker ''sshd[77]: Server listening on 0.0.0.0 port 22.'' \<and> \<not> accepted_marker ''sshd[77]: Server listening on 0.0.0.0 port 22.'' \<and> \<not> termination_marker ''sshd[77]: Server listening on 0.0.0.0 port 22.''
   \<and> ''sshd[77]: Server listening on 0.0.0.0 port 22.'' \<in> set (journal_lines (Some (''sshd[77]: Failed password for admin from 203.0.113.9 (accepted password, session closed)''
            @ [CHR 0x0A] @ ''sshd[77]: Server listening on 0.0.0.0 port 22.''))
          @ journal_lines None)
   \<and> kinds_of_line ''sshd[77]: Server listening on 0.0.0.0 port 22.'' (w_events (parse_journalctl_events None None
        (Some (''sshd[77]: Failed password for admin from 203.0.113.9 (accepted password, session closed)''
            @ [CHR 0x0A] @ ''sshd[77]: Server listening on 0.0.0.0 port 22.''))
        None (Some (''New session 42 of user admin.'' @ [CHR 0x0A] @ ''Removed session 42.'')))) = []
   \<and> \<not> failed_marker ''New session 42 of user admin.'' \<and> \<not> accepted_marker ''New session 42 of user admin.'' \<and> \<not> termination_marker ''New session 42 of user admin.''
   \<and> \<not> logind_logout_line ''New session 42 of user admin.''
   \<and> kinds_of_line ''New session 42 of user admin.'' (w_events (parse_journalctl_events None None
        (Some (''sshd[77]: Failed password for admin from 203.0.113.9 (accepted password, session closed)''
            @ [CHR 0x0A] @ ''sshd[77]: Server listening on 0.0.0.0 port 22.''))
        None (Some (''New session 42 of user admin.'' @ [CHR 0x0A] @ ''Removed session 42.'')))) = []
   \<and> ''Removed session 42.'' \<notin> set (journal_lines (Some (''sshd[77]: Failed password for admin from 203.0.113.9 (accepted password, session closed)''
            @ [CHR 0x0A] @ ''sshd[77]: Server listening on 0.0.0.0 port 22.''))
          @ journal_lines None)
   \<and> \<not> (\<exists>e\<in>set (w_events (parse_journalctl_events None None
        (Some (''sshd[77]: Failed password for admin from 203.0.113.9 (accepted password, session closed)''
            @ [CHR 0x0A] @ ''sshd[77]: Server listening on 0.0.0.0 port 22.''))
        None (Some (''New session 42 of user admin.'' @ [CHR 0x0A] @ ''Removed session 42.'')))). a_raw e = ''Removed session 42.''
            \<and> \<not> (a_type e = ''logout'' \<and> logind_logout_line ''Removed session 42.''
                    \<and> ''Removed session 42.'' \<in> set (journal_lines (Some (''New session 42 of user admin.'' @ [CHR 0x0A] @ ''Removed session 42.'')))))
   \<and> w_events (parse_journalctl_events None None
        (Some (''sshd[77]: Failed password for admin from 203.0.113.9 (accepted password, session closed)''
            @ [CHR 0x0A] @ ''sshd[77]: Server listening on 0.0.0.0 port 22.''))
        None (Some (''New session 42 of user admin.'' @ [CHR 0x0A] @ ''Removed session 42.'')))
       = [\<lparr>a_type = ''failed_login'', a_username = Some ''admin'', a_src_ip = Some ''203.0.113.9'',
            a_raw = ''sshd[77]: Failed password for admin from 203.0.113.9 (accepted password, session closed)''\<rparr>,
          \<lparr>a_type = ''logout'', a_username = Some ''admin'', a_src_ip = Some ''203.0.113.9'',
            a_raw = ''Removed session 42.''\<rparr>]"
proof -
  let ?l1 = "''sshd[77]: Failed password for admin from 203.0.113.9 (accepted password, session closed)''"
  let ?l2 = "''sshd[77]: Server listening on 0.0.0.0 port 22.''"
  let ?l3 = "''Removed session 42.''"
  let ?l4 = "''New session 42 of user admin.''"
  let ?ssh = "(Some (''sshd[77]: Failed password for admin from 203.0.113.9 (accepted password, session closed)''
            @ [CHR 0x0A] @ ''sshd[77]: Server listening on 0.0.0.0 port 22.''))"
  let ?logind = "(Some (''New session 42 of user admin.'' @ [CHR 0x0A] @ ''Removed session 42.''))"
  let ?w = "parse_journalctl_events None None ?ssh None ?logind"
  let ?lines = "journal_lines ?ssh @ journal_lines None"
  note c = classification_priority [OF refl refl, of _ ?ssh None None None ?logind]
  have m1: "failed_marker ?l1 \<and> accepted_marker ?l1 \<and> termination_marker ?l1" by code_simp
  have i1: "?l1 \<in> set ?lines" by code_simp
  have m2: "\<not> failed_marker ?l2 \<and> \<not> accepted_marker ?l2 \<and> \<not> termination_marker ?l2"
    by code_simp
  have i2: "?l2 \<in> set ?lines" by code_simp
  have m4: "\<not> failed_marker ?l4 \<and> \<not> accepted_marker ?l4 \<and> \<not> termination_marker ?l4
            \<and> \<not> logind_logout_line ?l4"
    by code_simp
  have i3: "?l3 \<notin> set ?lines" by code_simp
  have ev: "w_events ?w
       = [\<lparr>a_type = ''failed_login'', a_username = Some ''admin'', a_src_ip = Some ''203.0.113.9'',
            a_raw = ?l1\<rparr>,
          \<lparr>a_type = ''logout'', a_username = Some ''admin'', a_src_ip = Some ''203.0.113.9'',
            a_raw = ?l3\<rparr>]"
    by code_simp
  from c [of ?l1] m1 i1 have k1: "kinds_of_line ?l1 (w_events ?w) = [''failed_login'']" by blast
  from c [of ?l2] m2 i2 have k2: "kinds_of_line ?l2 (w_events ?w) = []" by blast
  from c [of ?l4] m4 have k4: "kinds_of_line ?l4 (w_events ?w) = []" by blast
  from c [of ?l3] i3 have k3: "\<forall>e\<in>set (w_events ?w). a_raw e = ?l3 \<longrightarrow>
               a_type e = ''logout'' \<and> logind_logout_line ?l3
               \<and> ?l3 \<in> set (journal_lines ?logind)" by blast
  from k3 have k3': "\<not> (\<exists>e\<in>set (w_events ?w). a_raw e = ?l3
            \<and> \<not> (a_type e = ''logout'' \<and> logind_logout_line ?l3
                    \<and> ?l3 \<in> set (journal_lines ?logind)))" by blast
  from m1 i1 k1 m2 i2 k2 m4 k4 i3 k3' ev show ?thesis by blast
qed

subsection \<open>The Windows agent\<close>

text \<open>\<^verbatim>\<open>int(str(n))\<close> is \<open>n\<close>: what the state file holds after a read is read back.\<close>

lemma is_digit_digit_char: "d < 10 \<Longrightarrow> is_digit (digit_char d)"
  by (simp add: is_digit_def digit_char_def)

lemma digit_val_digit_char: "d < 10 \<Longrightarrow> digit_val (digit_char d) = d"
  by (simp add: digit_val_def digit_char_def)

lemma str_nat_digits: "\<forall>c\<in>set (str_nat n). is_digit c"
proof (induction n rule: str_nat.induct)
  case (1 n)
  show ?case
  proof (cases "n < 10")
    case True
    then show ?thesis by (subst str_nat.simps) (simp add: is_digit_digit_char)
  next
    case False
    with "1" show ?thesis
      by (subst str_nat.simps) (simp add: is_digit_digit_char)
  qed
qed

lemma str_nat_nonempty: "str_nat n \<noteq> []"
  by (subst str_nat.simps) simp

lemma nat_of_digits_snoc: "nat_of_digits (ds @ [c]) = 10 * nat_of_digits ds + digit_val c"
  by (simp add: nat_of_digits_def)

lemma nat_of_digits_str_nat: "nat_of_digits (str_nat n) = n"
proof (induction n rule: str_nat.induct)
  case (1 n)
  show ?case
  proof (cases "n < 10")
    case True
    then show ?thesis by (subst str_nat.simps) (simp add: nat_of_digits_def digit_val_digit_char)
  next
    case False
    with "1" show ?thesis
      by (subst str_nat.simps) (simp add: nat_of_digits_snoc digit_val_digit_char)
  qed
qed

lemma digit_not_space: "is_digit c \<Longrightarrow> \<not> is_space c"
  by (auto simp: is_digit_def is_space_def Let_def)

lemma strip_no_space:
  assumes "\<forall>c\<in>set s. \<not> is_space c"
  shows "strip s = s"
proof -
  have a: "dropWhile is_space s = s" using assms by (cases s) auto
  have b: "dropWhile is_space (rev s) = rev s" using assms by (cases "rev s") auto
  show ?thesis by (simp add: strip_def a b)
qed

lemma int_literal_digits:
  assumes "\<forall>c\<in>set s. is_digit c"
  shows "int_literal after_digit s = (after_digit \<or> s \<noteq> [])"
  using assms by (induction s arbitrary: after_digit) auto

lemma py_int_str_nat: "py_int (str_nat n) = Some (int n)"
proof -
  have d: "\<forall>c\<in>set (str_nat n). is_digit c" by (rule str_nat_digits)
  then have s: "strip (str_nat n) = str_nat n"
    by (intro strip_no_space) (auto dest: digit_not_space)
  obtain c r where cr: "str_nat n = c # r" using str_nat_nonempty [of n] by (cases "str_nat n") auto
  with d have "is_digit c" by auto
  then have sign: "c \<noteq> CHR ''-''" "c \<noteq> CHR ''+''" by (auto simp: is_digit_def)
  have body: "(case str_nat n of [] \<Rightarrow> (False, str_nat n)
               | c # r \<Rightarrow> if c = CHR ''-'' then (True, r)
                          else if c = CHR ''+'' then (False, r) else (False, str_nat n))
              = (False, str_nat n)"
    using sign by (simp add: cr)
  have f: "filter is_digit (str_nat n) = str_nat n" using d by (simp add: filter_id_conv)
  have il: "int_literal False (str_nat n)"
    using int_literal_digits [OF d, of False] str_nat_nonempty [of n] by simp
  show ?thesis
    by (simp add: py_int_def s body f il nat_of_digits_str_nat)
qed

text \<open>
  C8. For a monitored file other than the state file, and a decoding that leaves decimal
  digits as they are (as UTF-8 does): a read that follows a read of the same file, with
  nothing appended in between, returns no line; and when the file does not exist the read
  returns no line and leaves the files, the state file with the offset among them, as
  they are.
\<close>

theorem offset_checkpoint:
  assumes "path \<noteq> STATE_FILE"
    and "\<forall>s. (\<forall>c\<in>set s. is_digit c) \<longrightarrow> decode s = s"
  shows "fst (read_file_new_lines decode (snd (read_file_new_lines decode fs path)) path) = []
       \<and> (fs path = None \<longrightarrow> read_file_new_lines decode fs path = ([], fs))"
proof (cases "fs path")
  case None
  then show ?thesis by (simp add: read_file_new_lines_def)
next
  case (Some content)
  note present = this
  let ?off = "case fs STATE_FILE of None \<Rightarrow> Some 0
              | Some state \<Rightarrow> py_int (or_zero (strip (or_zero (decode state))))"
  have empty: "decode [] = []" using assms(2) by simp
  show ?thesis
  proof (cases ?off)
    case None
    then have "read_file_new_lines decode fs path = ([], fs)"
      by (simp add: read_file_new_lines_def present)
    then show ?thesis by (simp add: present)
  next
    case (Some offset)
    note off = this
    show ?thesis
    proof (cases "offset < 0 \<or> offset \<ge> 2 ^ 63")
      case True
      with off have "read_file_new_lines decode fs path = ([], fs)"
        by (simp add: read_file_new_lines_def present)
      then show ?thesis by (simp add: present)
    next
      case False
      define n where "n = nat offset + length (drop (nat offset) content)"
      define state where "state = str_nat n"
      define fs' where "fs' = fs(STATE_FILE \<mapsto> state)"
      from False off have first: "snd (read_file_new_lines decode fs path) = fs'"
        by (simp add: read_file_new_lines_def present Let_def fs'_def state_def n_def)
      have present': "fs' path = Some content" using assms(1) present by (simp add: fs'_def)
      have stored: "fs' STATE_FILE = Some state" by (simp add: fs'_def)
      have digits: "\<forall>c\<in>set state. is_digit c" unfolding state_def by (rule str_nat_digits)
      have dec: "decode state = state" using assms(2) digits by blast
      have st: "strip state = state"
        by (intro strip_no_space) (use digits in \<open>auto dest: digit_not_space\<close>)
      have ne: "state \<noteq> []" unfolding state_def by (rule str_nat_nonempty)
      have off': "py_int (or_zero (strip (or_zero (decode state)))) = Some (int n)"
        using ne by (simp add: dec st or_zero_def) (simp add: state_def py_int_str_nat)
      have past: "drop n content = []" by (simp add: n_def)
      have "fst (read_file_new_lines decode fs' path) = []"
        by (simp add: read_file_new_lines_def present' stored off' past empty splitlines_def Let_def)
      with first show ?thesis by (simp add: present)
    qed
  qed
qed


theorem offset_checkpoint_witness:
  "LOG_PATHS ! 0 \<noteq> STATE_FILE
   \<and> fst (read_file_new_lines (\<lambda>t. t)
        [LOG_PATHS ! 0 \<mapsto> ''Accepted password for alice from 10.0.0.5 port 22 ssh2'' @ [CHR 0x0A]]
        (LOG_PATHS ! 0))
      = [''Accepted password for alice from 10.0.0.5 port 22 ssh2'']
   \<and> fst (read_file_new_lines (\<lambda>t. t)
        (snd (read_file_new_lines (\<lambda>t. t)
           [LOG_PATHS ! 0 \<mapsto> ''Accepted password for alice from 10.0.0.5 port 22 ssh2'' @ [CHR 0x0A]]
           (LOG_PATHS ! 0)))
        (LOG_PATHS ! 0))
      = []
   \<and> read_file_new_lines (\<lambda>t. t) Map.empty (LOG_PATHS ! 0) = ([], Map.empty)"
proof -
  have p: "LOG_PATHS ! 0 \<noteq> STATE_FILE" by (simp add: STATE_FILE_def LOG_PATHS_def)
  have d: "\<forall>s. (\<forall>c\<in>set s. is_digit c) \<longrightarrow> (\<lambda>t. t) s = s" by simp
  have one: "fst (read_file_new_lines (\<lambda>t. t)
        [LOG_PATHS ! 0 \<mapsto> ''Accepted password for alice from 10.0.0.5 port 22 ssh2'' @ [CHR 0x0A]]
        (LOG_PATHS ! 0))
      = [''Accepted password for alice from 10.0.0.5 port 22 ssh2'']"
    by code_simp
  from offset_checkpoint [OF p d,
      of "[LOG_PATHS ! 0 \<mapsto> ''Accepted password for alice from 10.0.0.5 port 22 ssh2'' @ [CHR 0x0A]]"]
    offset_checkpoint [OF p d, of Map.empty] p d one
  show ?thesis by simp
qed

text \<open>What the two collectors let through.\<close>

lemma openssh_record_event:
  assumes "openssh_record ts_of seen r = (seen', Inr (Some ev))"
  shows "\<not> no_peer (we_src_ip ev)
       \<and> parse_openssh_message (we_raw ev) = Some (we_type ev, we_username ev, we_src_ip ev)"
  using assms
  by (auto simp: openssh_record_def and_then_def Let_def
        split: sum.splits if_splits option.splits prod.splits)

lemma openssh_loop_events:
  "case snd (openssh_loop ts_of seen rs) of
     Inl err \<Rightarrow> True
   | Inr evs \<Rightarrow> \<forall>e\<in>set evs. \<not> no_peer (we_src_ip e)
        \<and> parse_openssh_message (we_raw e) = Some (we_type e, we_username e, we_src_ip e)"
proof (induction rs arbitrary: seen)
  case Nil
  then show ?case by simp
next
  case (Cons r rs)
  obtain seen' res where rec: "openssh_record ts_of seen r = (seen', res)"
    by (cases "openssh_record ts_of seen r")
  show ?case
  proof (cases res)
    case (Inl err)
    with rec show ?thesis by simp
  next
    case (Inr opt)
    show ?thesis
    proof (cases opt)
      case None
      with rec Inr Cons.IH [of seen'] show ?thesis by simp
    next
      case (Some ev)
      with rec Inr have "openssh_record ts_of seen r = (seen', Inr (Some ev))" by simp
      from openssh_record_event [OF this] rec Inr Some Cons.IH [of seen'] show ?thesis
        by (auto split: prod.splits sum.splits)
    qed
  qed
qed

lemma logfile_event_ok:
  assumes "logfile_event now_oman l = Some ev"
  shows "\<not> no_peer (we_src_ip ev)
       \<and> parse_openssh_message (we_raw ev) = Some (we_type ev, we_username ev, we_src_ip ev)"
  using assms by (auto simp: logfile_event_def split: option.splits if_splits)

lemma no_peer_iff:
  "(\<not> no_peer ip) \<Longrightarrow> ip \<noteq> None \<and> ip \<noteq> Some ''127.0.0.1'' \<and> ip \<noteq> Some ''::1''"
  by (cases ip) (auto simp: no_peer_def filled_def)

text \<open>
  C10. Every event that \<^verbatim>\<open>collect_from_openssh_operational\<close> returns (it returns none
  when it raises) and every event that \<^verbatim>\<open>collect_from_sshd_logfile\<close> returns has a source
  IP, which is neither \<^verbatim>\<open>127.0.0.1\<close> nor \<^verbatim>\<open>::1\<close>, and is the source IP that
  \<^verbatim>\<open>parse_openssh_message\<close> extracts from the text of the event: a record or line from
  which no source IP is extracted, or one of these two, yields no event.
\<close>

theorem windows_events_have_remote_peer:
  "(case snd (collect_from_openssh_operational ts_of seen out) of
      Inl err \<Rightarrow> True
    | Inr evs \<Rightarrow>
        \<forall>e\<in>set evs. we_src_ip e \<noteq> None \<and> we_src_ip e \<noteq> Some ''127.0.0.1''
          \<and> we_src_ip e \<noteq> Some ''::1''
          \<and> parse_openssh_message (we_raw e) = Some (we_type e, we_username e, we_src_ip e))
   \<and> (\<forall>e\<in>set (fst (collect_from_sshd_logfile decode now_oman fs)).
        we_src_ip e \<noteq> None \<and> we_src_ip e \<noteq> Some ''127.0.0.1'' \<and> we_src_ip e \<noteq> Some ''::1''
        \<and> parse_openssh_message (we_raw e) = Some (we_type e, we_username e, we_src_ip e))"
proof
  show "case snd (collect_from_openssh_operational ts_of seen out) of
      Inl err \<Rightarrow> True
    | Inr evs \<Rightarrow>
        \<forall>e\<in>set evs. we_src_ip e \<noteq> None \<and> we_src_ip e \<noteq> Some ''127.0.0.1''
          \<and> we_src_ip e \<noteq> Some ''::1''
          \<and> parse_openssh_message (we_raw e) = Some (we_type e, we_username e, we_src_ip e)"
    using openssh_loop_events [of ts_of seen "run_ps_json out"]
    by (auto simp: collect_from_openssh_operational_def split: sum.splits dest: no_peer_iff)
next
  show "\<forall>e\<in>set (fst (collect_from_sshd_logfile decode now_oman fs)).
        we_src_ip e \<noteq> None \<and> we_src_ip e \<noteq> Some ''127.0.0.1'' \<and> we_src_ip e \<noteq> Some ''::1''
        \<and> parse_openssh_message (we_raw e) = Some (we_type e, we_username e, we_src_ip e)"
  proof
    fix e assume "e \<in> set (fst (collect_from_sshd_logfile decode now_oman fs))"
    then obtain l where "logfile_event now_oman l = Some e"
      by (auto simp: collect_from_sshd_logfile_def List.map_filter_def
            split: option.splits prod.splits)
    from logfile_event_ok [OF this] show "we_src_ip e \<noteq> None \<and> we_src_ip e \<noteq> Some ''127.0.0.1''
        \<and> we_src_ip e \<noteq> Some ''::1''
        \<and> parse_openssh_message (we_raw e) = Some (we_type e, we_username e, we_src_ip e)"
      by (auto dest: no_peer_iff)
  qed
qed


theorem windows_events_have_remote_peer_witness:
  "snd (collect_from_openssh_operational (\<lambda>tc. ''2024-05-01T10:00:00+04:00'') {}
      (Some (PList
         [PDict [(''RecordId'', PNum 101), (''TimeCreated'', PStr ''2024-05-01T06:00:00''),
                 (''Message'', PStr ''Accepted password for alice from 10.0.0.5 port 22 ssh2'')],
          PDict [(''RecordId'', PNum 102),
                 (''Message'', PStr ''Failed password for root from 127.0.0.1 port 22 ssh2'')],
          PDict [(''RecordId'', PNum 103),
                 (''Message'', PStr ''Connection closed by authenticating user carol'')]])))
   = Inr [\<lparr>we_type = ''successful_login'', we_src_ip = Some ''10.0.0.5'',
            we_username = Some ''alice'', we_timestamp = ''2024-05-01T10:00:00+04:00'',
            we_raw = ''Accepted password for alice from 10.0.0.5 port 22 ssh2''\<rparr>]
   \<and> fst (collect_from_sshd_logfile (\<lambda>t. t) ''2024-05-01T10:00:08+04:00''
        [LOG_PATHS ! 1 \<mapsto>
           ''Failed password for root from 203.0.113.9 port 22 ssh2'' @ [CHR 0x0A]
           @ ''Accepted publickey for admin from ::1 port 22 ssh2'' @ [CHR 0x0A]
           @ ''Disconnected from 127.0.0.1 port 4000''])
   = [\<lparr>we_type = ''failed_login'', we_src_ip = Some ''203.0.113.9'',
        we_username = Some ''root'', we_timestamp = ''2024-05-01T10:00:08+04:00'',
        we_raw = ''Failed password for root from 203.0.113.9 port 22 ssh2''\<rparr>]
   \<and> parse_openssh_message ''Accepted password for alice from 10.0.0.5 port 22 ssh2''
     = Some (''successful_login'', Some ''alice'', Some ''10.0.0.5'')
   \<and> parse_openssh_message ''Failed password for root from 203.0.113.9 port 22 ssh2''
     = Some (''failed_login'', Some ''root'', Some ''203.0.113.9'')"
proof -
  let ?out = "Some (PList
         [PDict [(''RecordId'', PNum 101), (''TimeCreated'', PStr ''2024-05-01T06:00:00''),
                 (''Message'', PStr ''Accepted password for alice from 10.0.0.5 port 22 ssh2'')],
          PDict [(''RecordId'', PNum 102),
                 (''Message'', PStr ''Failed password for root from 127.0.0.1 port 22 ssh2'')],
          PDict [(''RecordId'', PNum 103),
                 (''Message'', PStr ''Connection closed by authenticating user carol'')]])"
  let ?fs = "[LOG_PATHS ! 1 \<mapsto>
           ''Failed password for root from 203.0.113.9 port 22 ssh2'' @ [CHR 0x0A]
           @ ''Accepted publickey for admin from ::1 port 22 ssh2'' @ [CHR 0x0A]
           @ ''Disconnected from 127.0.0.1 port 4000'']"
  have e1: "snd (collect_from_openssh_operational (\<lambda>tc. ''2024-05-01T10:00:00+04:00'') {} ?out)
   = Inr [\<lparr>we_type = ''successful_login'', we_src_ip = Some ''10.0.0.5'',
            we_username = Some ''alice'', we_timestamp = ''2024-05-01T10:00:00+04:00'',
            we_raw = ''Accepted password for alice from 10.0.0.5 port 22 ssh2''\<rparr>]"
    by code_simp
  have e2: "fst (collect_from_sshd_logfile (\<lambda>t. t) ''2024-05-01T10:00:08+04:00'' ?fs)
   = [\<lparr>we_type = ''failed_login'', we_src_ip = Some ''203.0.113.9'',
        we_username = Some ''root'', we_timestamp = ''2024-05-01T10:00:08+04:00'',
        we_raw = ''Failed password for root from 203.0.113.9 port 22 ssh2''\<rparr>]"
    by code_simp
  from windows_events_have_remote_peer [of "\<lambda>tc. ''2024-05-01T10:00:00+04:00''" "{}" ?out
      "\<lambda>t. t" "''2024-05-01T10:00:08+04:00''" ?fs]
  show ?thesis
    unfolding e1 e2 by simp
qed

end
